theory Spec2Isabelle
  imports
    Complex_Main
    "HOL-Library.Sublist"
    "HOL-Library.AList"
    "HOL-Library.Product_Lexorder"
begin

section \<open>Python values, exceptions and printed output\<close>

text \<open>
  \<^verbatim>\<open>FmpConnector.py\<close> is a client of a JSON web API. The value that
  \<^verbatim>\<open>response.json()\<close> returns is a Python object built from \<^verbatim>\<open>None\<close>,
  booleans, numbers, strings, lists and dicts. A dict is an association list whose keys are
  distinct and kept in insertion order. A float is carried as the rational it denotes; the
  program never computes with one.
\<close>

datatype pyval =
    PNone
  | PBool bool
  | PInt int
  | PFloat rat
  | PStr string
  | PList "pyval list"
  | PDict "(string \<times> pyval) list"

text \<open>
  The exceptions the program can meet. \<open>ConnectionError\<close> stands for every network-level
  failure of \<^verbatim>\<open>requests.get\<close>; \<open>JSONDecodeError\<close> is what \<^verbatim>\<open>response.json()\<close>
  raises on a body that is not JSON, and it is a subclass of \<^verbatim>\<open>ValueError\<close>.
  \<open>OutOfBoundsDatetime\<close> is what pandas raises on a date that a \<^verbatim>\<open>Timestamp\<close> cannot
  hold, and it is a subclass of \<^verbatim>\<open>ValueError\<close> too.
  \<open>OutsideModel\<close> marks a call into pandas whose behaviour this development does not
  describe (see \<open>from_dict\<close>, \<open>to_datetime\<close> and \<open>loc_slice\<close> below); no statement is made
  about the program on such inputs.
\<close>

datatype exn =
    KeyError string
  | ValueError
  | TypeError
  | IndexError
  | ConnectionError
  | JSONDecodeError
  | OutOfBoundsDatetime
  | OutsideModel

definition is_KeyError :: "exn \<Rightarrow> bool" where
  "is_KeyError e = (case e of KeyError k \<Rightarrow> True | _ \<Rightarrow> False)"

definition is_ValueError :: "exn \<Rightarrow> bool" where
  "is_ValueError e = (e = ValueError \<or> e = JSONDecodeError \<or> e = OutOfBoundsDatetime)"

text \<open>A line written by \<^verbatim>\<open>print\<close>: a message, or the \<^verbatim>\<open>repr\<close> of a Python value.\<close>

datatype line = Text string | Repr pyval

text \<open>\<^verbatim>\<open>str\<close> of a Python \<^verbatim>\<open>int\<close>, as an f-string renders it.\<close>

fun str_nat :: "nat \<Rightarrow> string" where
  "str_nat n =
     (if n < 10 then [''0123456789'' ! n]
      else str_nat (n div 10) @ [''0123456789'' ! (n mod 10)])"

declare str_nat.simps [simp del]

definition str_int :: "int \<Rightarrow> string" where
  "str_int i = (if i < 0 then CHR ''-'' # str_nat (nat (- i)) else str_nat (nat i))"

text \<open>An optional string argument inside an f-string: \<^verbatim>\<open>None\<close> renders as \<^verbatim>\<open>None\<close>.\<close>

definition str_opt :: "string option \<Rightarrow> string" where
  "str_opt s = (case s of None \<Rightarrow> ''None'' | Some t \<Rightarrow> t)"

text \<open>
  \<^verbatim>\<open>data[key]\<close> on a Python value: a dict looks the key up and raises \<^verbatim>\<open>KeyError\<close> when
  it is missing; every other JSON value raises \<^verbatim>\<open>TypeError\<close> on a string subscript.
\<close>

definition subscript :: "pyval \<Rightarrow> string \<Rightarrow> exn + pyval" where
  "subscript data k =
     (case data of
        PDict kvs \<Rightarrow> (case map_of kvs k of None \<Rightarrow> Inl (KeyError k) | Some v \<Rightarrow> Inr v)
      | _ \<Rightarrow> Inl TypeError)"

text \<open>\<^verbatim>\<open>xs[i]\<close> on a Python list with a non-negative index.\<close>

definition py_nth :: "'a list \<Rightarrow> nat \<Rightarrow> exn + 'a" where
  "py_nth xs i = (if i < length xs then Inr (xs ! i) else Inl IndexError)"


section \<open>Calendar dates\<close>

text \<open>
  A date is (year, month, day), ordered lexicographically. The daily price series of the API
  carries one date per row, so a pandas \<^verbatim>\<open>Timestamp\<close> is modelled by its date (midnight of
  that day).
\<close>

type_synonym date = "nat \<times> nat \<times> nat"

definition digit_val :: "char \<Rightarrow> nat option" where
  "digit_val c = (if c \<in> set ''0123456789'' then Some (of_char c - 48) else None)"

fun digits_val :: "nat \<Rightarrow> string \<Rightarrow> nat option" where
  "digits_val acc [] = Some acc"
| "digits_val acc (c # cs) =
     (case digit_val c of None \<Rightarrow> None | Some d \<Rightarrow> digits_val (10 * acc + d) cs)"

definition leap_year :: "nat \<Rightarrow> bool" where
  "leap_year y = (y mod 4 = 0 \<and> (y mod 100 \<noteq> 0 \<or> y mod 400 = 0))"

definition days_in_month :: "nat \<Rightarrow> nat \<Rightarrow> nat" where
  "days_in_month y m =
     (if m = 2 then (if leap_year y then 29 else 28)
      else if m \<in> {4, 6, 9, 11} then 30 else 31)"

text \<open>
  The format the docstring of \<^verbatim>\<open>draw_chart\<close> names and the API delivers:
  \<^verbatim>\<open>yyyy-MM-dd\<close>. Any other text gives \<open>None\<close>.
\<close>

definition parse_date :: "string \<Rightarrow> date option" where
  "parse_date s =
     (if length s = 10 \<and> s ! 4 = CHR ''-'' \<and> s ! 7 = CHR ''-'' then
        (case (digits_val 0 (take 4 s), digits_val 0 (take 2 (drop 5 s)),
               digits_val 0 (drop 8 s)) of
           (Some y, Some m, Some d) \<Rightarrow>
             (if 1 \<le> m \<and> m \<le> 12 \<and> 1 \<le> d \<and> d \<le> days_in_month y m
              then Some (y, m, d) else None)
         | _ \<Rightarrow> None)
      else None)"


text \<open>
  The \<^verbatim>\<open>Timestamp\<close> of a parsed date: a date of the years 1678 to 2261 is held as it
  is; a date of an earlier year from 1000 on, or of a later year, raises
  \<^verbatim>\<open>OutOfBoundsDatetime\<close>. The two years the range ends in, and years before 1000, are
  outside the model.
\<close>

definition to_timestamp :: "date \<Rightarrow> exn + date" where
  "to_timestamp dt =
     (case dt of (y, m, d) \<Rightarrow>
        if 1678 \<le> y \<and> y \<le> 2261 then Inr dt
        else if (1000 \<le> y \<and> y < 1677) \<or> 2262 < y then Inl OutOfBoundsDatetime
        else Inl OutsideModel)"

definition zero_pad :: "nat \<Rightarrow> string \<Rightarrow> string" where
  "zero_pad n s = replicate (n - length s) CHR ''0'' @ s"

text \<open>\<^verbatim>\<open>str\<close> of a midnight \<^verbatim>\<open>Timestamp\<close>.\<close>

definition str_date :: "date \<Rightarrow> string" where
  "str_date dt =
     (case dt of (y, m, d) \<Rightarrow>
        zero_pad 4 (str_nat y) @ ''-'' @ zero_pad 2 (str_nat m) @ ''-'' @ zero_pad 2 (str_nat d)
        @ '' 00:00:00'')"


section \<open>Data frames\<close>

text \<open>
  A \<^verbatim>\<open>pandas.DataFrame\<close>: column labels, row labels (the index) with the name of the
  index, the cells row by row, and the \<^verbatim>\<open>attrs\<close> dictionary of out-of-band metadata.
  Every row has one cell per column and there is one row per index label; column labels are
  distinct. A cell holds the Python value it was built from. pandas stores a column under
  one dtype and converts the values of a column that mixes integers with floats or with
  missing values; such columns are outside the model (see \<open>uniform_column\<close>), so that the
  value of a cell is the value pandas holds. \<open>NaN\<close> is the missing value.
\<close>

datatype label = LInt int | LStr string | LDate date

datatype cell = Val pyval | NaN | Stamp date

record dataframe =
  columns :: "label list"
  index :: "label list"
  index_name :: "string option"
  rows :: "cell list list"
  attrs :: "(string \<times> string) list"

text \<open>\<^verbatim>\<open>pd.DataFrame()\<close>\<close>

definition empty_df :: dataframe where
  "empty_df = \<lparr>columns = [], index = [], index_name = None, rows = [], attrs = []\<rparr>"

text \<open>\<^verbatim>\<open>df.empty\<close>: some axis has length 0.\<close>

definition df_empty :: "dataframe \<Rightarrow> bool" where
  "df_empty df = (columns df = [] \<or> index df = [])"

fun is_scalar :: "pyval \<Rightarrow> bool" where
  "is_scalar (PList xs) = False"
| "is_scalar (PDict kvs) = False"
| "is_scalar v = True"

fun is_dict :: "pyval \<Rightarrow> bool" where
  "is_dict (PDict kvs) = True"
| "is_dict v = False"

fun dict_items :: "pyval \<Rightarrow> (string \<times> pyval) list" where
  "dict_items (PDict kvs) = kvs"
| "dict_items v = []"

text \<open>The distinct elements of a list, in the order of their first occurrence.\<close>

definition uniq :: "'a list \<Rightarrow> 'a list" where
  "uniq xs = rev (remdups (rev xs))"

definition range_index :: "nat \<Rightarrow> label list" where
  "range_index n = map (\<lambda>i. LInt (int i)) [0..<n]"

text \<open>
  The columns whose values pandas keeps as they are: all integers that fit 64 bits, all
  floats, all booleans, or all objects (strings, lists, dicts). A column with a missing or
  null value, or with values of several of these kinds, is not uniform.
\<close>

fun is_int64 :: "pyval \<Rightarrow> bool" where
  "is_int64 (PInt i) = (- (2 ^ 63) \<le> i \<and> i < 2 ^ 63)"
| "is_int64 v = False"

fun is_float :: "pyval \<Rightarrow> bool" where
  "is_float (PFloat x) = True"
| "is_float v = False"

fun is_bool :: "pyval \<Rightarrow> bool" where
  "is_bool (PBool b) = True"
| "is_bool v = False"

fun is_object :: "pyval \<Rightarrow> bool" where
  "is_object (PStr s) = True"
| "is_object (PList xs) = True"
| "is_object (PDict kvs) = True"
| "is_object v = False"

definition uniform_column :: "pyval list \<Rightarrow> bool" where
  "uniform_column vs =
     (list_all is_int64 vs \<or> list_all is_float vs \<or> list_all is_bool vs
      \<or> list_all is_object vs)"

text \<open>The column of a key in a list of records; a record that lacks the key gives null.\<close>

definition record_column :: "(string \<times> pyval) list list \<Rightarrow> string \<Rightarrow> pyval list" where
  "record_column recs k = map (\<lambda>r. case map_of r k of None \<Rightarrow> PNone | Some v \<Rightarrow> v) recs"

definition uniform_records :: "(string \<times> pyval) list list \<Rightarrow> bool" where
  "uniform_records recs =
     (list_all (\<lambda>r. distinct (map fst r)) recs
      \<and> list_all (\<lambda>k. uniform_column (record_column recs k))
            (uniq (concat (map (map fst) recs))))"

text \<open>
  A list of records: one row per record, one column per key in the order the keys first
  appear, \<open>NaN\<close> where a record lacks a key.
\<close>

definition records_frame :: "(string \<times> pyval) list list \<Rightarrow> dataframe" where
  "records_frame recs =
     (let cols = uniq (concat (map (map fst) recs))
      in \<lparr>columns = map LStr cols,
          index = range_index (length recs),
          index_name = None,
          rows = map (\<lambda>r. map (\<lambda>k. case map_of r k of None \<Rightarrow> NaN | Some v \<Rightarrow> Val v) cols) recs,
          attrs = []\<rparr>)"

text \<open>A list of scalars: one column, labelled with the integer 0.\<close>

definition scalars_frame :: "pyval list \<Rightarrow> dataframe" where
  "scalars_frame xs =
     \<lparr>columns = [LInt 0], index = range_index (length xs), index_name = None,
      rows = map (\<lambda>v. [Val v]) xs, attrs = []\<rparr>"

text \<open>
  \<^verbatim>\<open>pd.DataFrame.from_dict(data)\<close> with the default orientation, which is
  \<^verbatim>\<open>pd.DataFrame(data)\<close>, on the shapes the API answers with:
  \<^item> \<^verbatim>\<open>None\<close>, \<^verbatim>\<open>[]\<close> and \<^verbatim>\<open>{}\<close> give the empty frame;
  \<^item> a list of dicts with uniform columns gives one row per dict;
  \<^item> a list of scalars of one kind gives one column labelled 0;
  \<^item> a dict whose values are all scalars (the API's \<^verbatim>\<open>{"Error Message": ...}\<close>) raises
    \<^verbatim>\<open>ValueError\<close> (all scalar values and no index);
  \<^item> a bare scalar raises \<^verbatim>\<open>ValueError\<close> (constructor not properly called).
  Lists of mixed or nested elements, lists whose columns are not uniform and dicts with
  list or dict values are outside the model.
\<close>

definition from_dict :: "pyval \<Rightarrow> exn + dataframe" where
  "from_dict data =
     (case data of
        PNone \<Rightarrow> Inr empty_df
      | PList xs \<Rightarrow>
          (if xs = [] then Inr empty_df
           else if list_all is_dict xs then
             (if uniform_records (map dict_items xs)
              then Inr (records_frame (map dict_items xs)) else Inl OutsideModel)
           else if list_all is_scalar xs then
             (if uniform_column xs then Inr (scalars_frame xs) else Inl OutsideModel)
           else Inl OutsideModel)
      | PDict kvs \<Rightarrow>
          (if kvs = [] then Inr empty_df
           else if list_all (\<lambda>kv. is_scalar (snd kv)) kvs then Inl ValueError
           else Inl OutsideModel)
      | _ \<Rightarrow> Inl ValueError)"

text \<open>
  The cell of a row at a column position. A row of a well-formed frame has a cell at every
  column position; a shorter row is read as if padded with \<open>NaN\<close>.
\<close>

definition cell_at :: "cell list \<Rightarrow> nat \<Rightarrow> cell" where
  "cell_at r j = (if j < length r then r ! j else NaN)"

text \<open>\<^verbatim>\<open>df.T\<close>: rows and columns change places.\<close>

definition transpose_df :: "dataframe \<Rightarrow> dataframe" where
  "transpose_df df =
     df\<lparr>columns := index df, index := columns df, index_name := None,
        rows := map (\<lambda>j. map (\<lambda>r. cell_at r j) (rows df)) [0..<length (columns df)]\<rparr>"

text \<open>\<^verbatim>\<open>df.rename(columns={0:'info'})\<close>\<close>

definition rename_info :: "dataframe \<Rightarrow> dataframe" where
  "rename_info df = df\<lparr>columns := map (\<lambda>c. if c = LInt 0 then LStr ''info'' else c) (columns df)\<rparr>"

fun find_pos :: "'a \<Rightarrow> 'a list \<Rightarrow> nat option" where
  "find_pos x [] = None"
| "find_pos x (y # ys) = (if x = y then Some 0 else map_option Suc (find_pos x ys))"

text \<open>\<^verbatim>\<open>df[name]\<close>: the cells of a column, or \<^verbatim>\<open>KeyError\<close>.\<close>

definition getitem :: "dataframe \<Rightarrow> string \<Rightarrow> exn + cell list" where
  "getitem df name =
     (case find_pos (LStr name) (columns df) of
        None \<Rightarrow> Inl (KeyError name)
      | Some j \<Rightarrow> Inr (map (\<lambda>r. cell_at r j) (rows df)))"

text \<open>
  \<^verbatim>\<open>df[name] = values\<close>: an existing column is replaced in place, a new one is appended;
  values that are not one per row raise \<^verbatim>\<open>ValueError\<close>.
\<close>

definition setitem :: "dataframe \<Rightarrow> string \<Rightarrow> cell list \<Rightarrow> exn + dataframe" where
  "setitem df name vs =
     (if length vs \<noteq> length (rows df) then Inl ValueError
      else case find_pos (LStr name) (columns df) of
             None \<Rightarrow> Inr (df\<lparr>columns := columns df @ [LStr name],
                               rows := map (\<lambda>(r, v). r @ [v]) (zip (rows df) vs)\<rparr>)
           | Some j \<Rightarrow> Inr (df\<lparr>rows := map (\<lambda>(r, v). r[j := v]) (zip (rows df) vs)\<rparr>))"

text \<open>
  \<^verbatim>\<open>pd.to_datetime(column)\<close> on a column of \<^verbatim>\<open>yyyy-MM-dd\<close> strings; a date that a
  \<^verbatim>\<open>Timestamp\<close> cannot hold raises. Other cells (other date formats, numbers, missing
  values) are outside the model.
\<close>

fun to_datetime :: "cell list \<Rightarrow> exn + cell list" where
  "to_datetime [] = Inr []"
| "to_datetime (c # cs) =
     (case c of
        Val (PStr s) \<Rightarrow>
          (case parse_date s of
             None \<Rightarrow> Inl OutsideModel
           | Some d \<Rightarrow>
               (case to_timestamp d of
                  Inl e \<Rightarrow> Inl e
                | Inr t \<Rightarrow>
                    (case to_datetime cs of Inl e \<Rightarrow> Inl e | Inr ds \<Rightarrow> Inr (Stamp t # ds))))
      | _ \<Rightarrow> Inl OutsideModel)"

fun cell_labels :: "cell list \<Rightarrow> exn + label list" where
  "cell_labels [] = Inr []"
| "cell_labels (c # cs) =
     (case c of
        Stamp d \<Rightarrow> (case cell_labels cs of Inl e \<Rightarrow> Inl e | Inr ls \<Rightarrow> Inr (LDate d # ls))
      | _ \<Rightarrow> Inl OutsideModel)"

definition drop_nth :: "nat \<Rightarrow> 'a list \<Rightarrow> 'a list" where
  "drop_nth j xs = take j xs @ drop (Suc j) xs"

text \<open>
  \<^verbatim>\<open>df.set_index(name)\<close> on a column of timestamps: the column becomes the index and is
  no longer a column; \<^verbatim>\<open>attrs\<close> are kept.
\<close>

definition set_index :: "dataframe \<Rightarrow> string \<Rightarrow> exn + dataframe" where
  "set_index df name =
     (case find_pos (LStr name) (columns df) of
        None \<Rightarrow> Inl (KeyError name)
      | Some j \<Rightarrow>
          (case cell_labels (map (\<lambda>r. cell_at r j) (rows df)) of
             Inl e \<Rightarrow> Inl e
           | Inr ls \<Rightarrow>
               Inr (df\<lparr>columns := drop_nth j (columns df), index := ls,
                       index_name := Some name, rows := map (drop_nth j) (rows df)\<rparr>)))"


section \<open>The figure of the chart renderer\<close>

text \<open>
  What \<^verbatim>\<open>draw_chart\<close> hands to plotly: the traces with the panel (row, column) each goes
  to, the title and the layout settings. \<open>Candlestick\<close> and \<open>Ohlc\<close> carry x, open, high, low,
  close and the name.
\<close>

datatype trace =
    Bar "label list" "cell list" string string
  | Candlestick "label list" "cell list" "cell list" "cell list" "cell list" string
  | Scatter "label list" "cell list" string
  | Ohlc "label list" "cell list" "cell list" "cell list" "cell list" string

record figure =
  grid_rows :: nat
  grid_cols :: nat
  row_heights :: "rat list"
  shared_xaxes :: bool
  vertical_spacing :: rat
  height :: "nat option"
  traces :: "(trace \<times> nat \<times> nat) list"
  title :: "string option"
  rangeslider_visible :: "bool option"
  rangebreaks :: "(string \<times> string) list"



section \<open>The world: transport, output, objects\<close>

text \<open>
  \<^verbatim>\<open>requests.get(url)\<close> either fails at the network level or delivers a response with a
  status code and a body; \<^verbatim>\<open>response.json()\<close> decodes a JSON body and raises on any
  other.
\<close>

datatype body = JsonBody pyval | OtherBody string

record response =
  status_code :: nat
  body :: body

datatype reply = NetworkFailure | Reply response

text \<open>
  The state the program runs in: the remote service (\<open>transport\<close>), the URLs requested so
  far, the lines printed so far, the \<^verbatim>\<open>DataFrame\<close> objects that exist (\<open>frames\<close>, with
  \<open>next_ref\<close> the first unused reference) and the figures shown so far.
\<close>

record world =
  transport :: "string \<Rightarrow> reply"
  requested :: "string list"
  printed :: "line list"
  frames :: "nat \<Rightarrow> dataframe"
  next_ref :: nat
  shown :: "figure list"

definition print :: "line \<Rightarrow> world \<Rightarrow> world" where
  "print l w = w\<lparr>printed := printed w @ [l]\<rparr>"

definition requests_get :: "string \<Rightarrow> world \<Rightarrow> (exn + response) \<times> world" where
  "requests_get url w =
     (let w1 = w\<lparr>requested := requested w @ [url]\<rparr>
      in case transport w url of
           NetworkFailure \<Rightarrow> (Inl ConnectionError, w1)
         | Reply r \<Rightarrow> (Inr r, w1))"

definition json :: "response \<Rightarrow> exn + pyval" where
  "json r = (case body r of JsonBody v \<Rightarrow> Inr v | OtherBody s \<Rightarrow> Inl JSONDecodeError)"

text \<open>\<^verbatim>\<open>requests.get(endpoint).json()\<close>\<close>

definition requests_get_json :: "string \<Rightarrow> world \<Rightarrow> (exn + pyval) \<times> world" where
  "requests_get_json url w =
     (case requests_get url w of
        (Inl e, w1) \<Rightarrow> (Inl e, w1)
      | (Inr r, w1) \<Rightarrow> (json r, w1))"

text \<open>A new \<^verbatim>\<open>DataFrame\<close> object: it takes the first unused reference.\<close>

definition new_frame :: "dataframe \<Rightarrow> world \<Rightarrow> nat \<times> world" where
  "new_frame df w =
     (next_ref w, w\<lparr>frames := (frames w)(next_ref w := df), next_ref := Suc (next_ref w)\<rparr>)"

text \<open>
  What a method returns: a \<^verbatim>\<open>DataFrame\<close>, the class \<^verbatim>\<open>pd.DataFrame\<close> itself, an integer,
  or \<^verbatim>\<open>None\<close>.
\<close>

datatype retval = Frame dataframe | FrameClass | Num int | PyNone

text \<open>An empty tabular result: a \<^verbatim>\<open>DataFrame\<close> that is empty.\<close>

fun empty_table :: "retval \<Rightarrow> bool" where
  "empty_table (Frame df) = df_empty df"
| "empty_table v = False"


section \<open>The client\<close>

record client =
  apikey :: string

text \<open>
  \<^verbatim>\<open>__init__\<close>: store the credential, request the profile of AAPL, print
  \<^verbatim>\<open>Connected\<close> on status 200 and the decoded body otherwise. Nothing is caught.
\<close>

definition test_endpoint :: "client \<Rightarrow> string" where
  "test_endpoint self = ''https://financialmodelingprep.com/api/v3/profile/AAPL?apikey='' @ apikey self"

definition init :: "string \<Rightarrow> world \<Rightarrow> (exn + client) \<times> world" where
  "init key w =
     (let self = \<lparr>apikey = key\<rparr>
      in case requests_get (test_endpoint self) w of
           (Inl e, w1) \<Rightarrow> (Inl e, w1)
         | (Inr response, w1) \<Rightarrow>
             (if status_code response = 200 then (Inr self, print (Text ''Connected'') w1)
              else (case json response of
                      Inl e \<Rightarrow> (Inl e, w1)
                    | Inr v \<Rightarrow> (Inr self, print (Repr v) w1))))"


section \<open>Fetch operations\<close>

subsection \<open>\<^verbatim>\<open>get_company_info\<close>\<close>

definition company_info_dict :: "client \<Rightarrow> string \<Rightarrow> int \<Rightarrow> (string \<times> string) list" where
  "company_info_dict self symbol limit =
     [(''company_profile'',
         ''https://financialmodelingprep.com/api/v3/profile/'' @ symbol @ ''?apikey='' @ apikey self),
      (''company_rating'',
         ''https://financialmodelingprep.com/api/v3/rating/'' @ symbol @ ''?apikey='' @ apikey self),
      (''historical_rating'',
         ''https://financialmodelingprep.com/api/v3/historical-rating/'' @ symbol
           @ ''?limit='' @ str_int limit @ ''&apikey='' @ apikey self),
      (''recommendations'',
         ''https://financialmodelingprep.com/api/v3/analyst-stock-recommendations/'' @ symbol
           @ ''?limit='' @ str_int limit @ ''&apikey='' @ apikey self)]"

definition info_type_msg :: "string \<Rightarrow> string" where
  "info_type_msg info_type =
     CHR 0x27 # info_type @ CHR 0x27 #
     '' is not valid info_type - choose info type from possible options [company_profile, company_rating, historical_rating, recommendations]''"

text \<open>
  The second \<^verbatim>\<open>try\<close> block of \<^verbatim>\<open>get_company_info\<close>: build the frame from \<open>data\<close>; on
  \<^verbatim>\<open>ValueError\<close> print \<open>data\<close> and keep the empty frame \<open>df\<close> was initialised with.
\<close>

definition company_info_frame :: "string \<Rightarrow> pyval \<Rightarrow> world \<Rightarrow> (exn + retval) \<times> world" where
  "company_info_frame info_type data w =
     (case (if info_type \<notin> set [''historical_rating'', ''recommendations'']
            then (case from_dict data of
                    Inl e \<Rightarrow> Inl e
                  | Inr df \<Rightarrow> Inr (rename_info (transpose_df df)))
            else from_dict data) of
        Inl e \<Rightarrow> (if is_ValueError e then (Inr (Frame empty_df), print (Repr data) w)
                  else (Inl e, w))
      | Inr df \<Rightarrow> (Inr (Frame df), w))"

definition get_company_info ::
  "client \<Rightarrow> string \<Rightarrow> int \<Rightarrow> string \<Rightarrow> world \<Rightarrow> (exn + retval) \<times> world" where
  "get_company_info self symbol limit info_type w =
     (case (case map_of (company_info_dict self symbol limit) info_type of
              None \<Rightarrow> (Inl (KeyError info_type), w)
            | Some endpoint \<Rightarrow> requests_get_json endpoint w) of
        (Inl e, w1) \<Rightarrow>
          (if is_KeyError e
           then company_info_frame info_type PNone (print (Text (info_type_msg info_type)) w1)
           else (Inl e, w1))
      | (Inr data, w1) \<Rightarrow> company_info_frame info_type data w1)"


subsection \<open>\<^verbatim>\<open>get_financial_data\<close>\<close>

definition report_type_dict ::
  "client \<Rightarrow> string \<Rightarrow> string \<Rightarrow> int \<Rightarrow> (string \<times> string list) list" where
  "report_type_dict self symbol period limit =
     [(''balance_statement'',
        [''https://financialmodelingprep.com/api/v3/balance-sheet-statement/'' @ symbol
           @ ''?period='' @ period @ ''&limit='' @ str_int limit @ ''&apikey='' @ apikey self,
         ''https://financialmodelingprep.com/api/v3/balance-sheet-statement-as-reported/'' @ symbol
           @ ''?period='' @ period @ ''&limit='' @ str_int limit @ ''&apikey='' @ apikey self]),
      (''income_statement'',
        [''https://financialmodelingprep.com/api/v3/income-statement/'' @ symbol
           @ ''?period='' @ period @ ''&limit='' @ str_int limit @ ''&apikey='' @ apikey self,
         ''https://financialmodelingprep.com/api/v3/income-statement-as-reported/'' @ symbol
           @ ''?period='' @ period @ ''&limit='' @ str_int limit @ ''&apikey='' @ apikey self]),
      (''cashflow_statement'',
        [''https://financialmodelingprep.com/api/v3/cash-flow-statement/'' @ symbol
           @ ''?period='' @ period @ ''&limit='' @ str_int limit @ ''&apikey='' @ apikey self,
         ''https://financialmodelingprep.com/api/v3/cash-flow-statement-as-reported/'' @ symbol
           @ ''?period='' @ period @ ''&limit='' @ str_int limit @ ''&apikey='' @ apikey self]),
      (''full_statement'',
        [''https://financialmodelingprep.com/api/v3/financial-statement-full-as-reported/'' @ symbol
           @ ''?period='' @ period @ ''&limit='' @ str_int limit @ ''&apikey='' @ apikey self])]"

definition period_msg :: "string \<Rightarrow> string" where
  "period_msg period =
     CHR 0x27 # period @ CHR 0x27 #
     '' is not valid option for period - choose from possible options [annual, quarter]''"

definition report_type_msg :: "string \<Rightarrow> string" where
  "report_type_msg report_type =
     CHR 0x27 # report_type @ CHR 0x27 #
     '' is not valid report_type - choose info type from possible options [balance_statement, income_statement, cashflow_statement, full_statement]''"

text \<open>
  The first \<^verbatim>\<open>try\<close> block up to the request: template 0 of the report type, replaced by
  template 1 when \<^verbatim>\<open>as_reported\<close> is set and the report type is not \<^verbatim>\<open>full_statement\<close>.
\<close>

definition financial_endpoint ::
  "client \<Rightarrow> string \<Rightarrow> string \<Rightarrow> string \<Rightarrow> int \<Rightarrow> bool \<Rightarrow> exn + string" where
  "financial_endpoint self symbol report_type period limit as_reported =
     (case map_of (report_type_dict self symbol period limit) report_type of
        None \<Rightarrow> Inl (KeyError report_type)
      | Some templates \<Rightarrow>
          (case py_nth templates 0 of
             Inl e \<Rightarrow> Inl e
           | Inr endpoint \<Rightarrow>
               (if as_reported \<and> report_type \<noteq> ''full_statement''
                then py_nth templates 1 else Inr endpoint)))"

text \<open>The second \<^verbatim>\<open>try\<close> block of \<^verbatim>\<open>get_financial_data\<close>.\<close>

definition financial_frame :: "pyval \<Rightarrow> world \<Rightarrow> (exn + retval) \<times> world" where
  "financial_frame data w =
     (case from_dict data of
        Inl e \<Rightarrow> (if is_ValueError e then (Inr (Frame empty_df), print (Repr data) w)
                  else (Inl e, w))
      | Inr df \<Rightarrow> (Inr (Frame (rename_info df)), w))"

definition get_financial_data ::
  "client \<Rightarrow> string \<Rightarrow> string \<Rightarrow> string \<Rightarrow> int \<Rightarrow> bool \<Rightarrow> world \<Rightarrow> (exn + retval) \<times> world" where
  "get_financial_data self symbol report_type period limit as_reported w =
     (if period \<notin> set [''annual'', ''quarter'']
      then (Inr (Num 0), print (Text (period_msg period)) w)
      else
        (case (case financial_endpoint self symbol report_type period limit as_reported of
                 Inl e \<Rightarrow> (Inl e, w)
               | Inr endpoint \<Rightarrow> requests_get_json endpoint w) of
           (Inl e, w1) \<Rightarrow>
             (if is_KeyError e
              then financial_frame PNone (print (Text (report_type_msg report_type)) w1)
              else (Inl e, w1))
         | (Inr data, w1) \<Rightarrow> financial_frame data w1))"


subsection \<open>\<^verbatim>\<open>get_instruments\<close>\<close>

definition asset_type_dict :: "client \<Rightarrow> (string \<times> string) list" where
  "asset_type_dict self =
     [(''forex'',
         ''https://financialmodelingprep.com/api/v3/symbol/available-forex-currency-pairs?apikey='' @ apikey self),
      (''stock'',
         ''https://financialmodelingprep.com/api/v3/stock/list?apikey='' @ apikey self),
      (''commodities'',
         ''https://financialmodelingprep.com/api/v3/symbol/available-commodities?apikey='' @ apikey self),
      (''crypto'',
         ''https://financialmodelingprep.com/api/v3/symbol/available-cryptocurrencies?apikey='' @ apikey self)]"

definition asset_type_msg :: "string \<Rightarrow> string" where
  "asset_type_msg asset_type =
     CHR 0x27 # asset_type @ CHR 0x27 #
     '' is not valid asset_type - choose info type from possible options [forex, stock, crypto, commodities]''"

text \<open>
  The second \<^verbatim>\<open>try\<close> block of \<^verbatim>\<open>get_instruments\<close> and \<^verbatim>\<open>get_market_news\<close>. Both
  initialise \<open>df\<close> with \<^verbatim>\<open>pd.DataFrame\<close>, the class, so that is what is returned when
  \<^verbatim>\<open>from_dict\<close> raises \<^verbatim>\<open>ValueError\<close>.
\<close>

definition plain_frame :: "pyval \<Rightarrow> world \<Rightarrow> (exn + retval) \<times> world" where
  "plain_frame data w =
     (case from_dict data of
        Inl e \<Rightarrow> (if is_ValueError e then (Inr FrameClass, print (Repr data) w) else (Inl e, w))
      | Inr df \<Rightarrow> (Inr (Frame df), w))"

definition get_instruments :: "client \<Rightarrow> string \<Rightarrow> world \<Rightarrow> (exn + retval) \<times> world" where
  "get_instruments self asset_type w =
     (case (case map_of (asset_type_dict self) asset_type of
              None \<Rightarrow> (Inl (KeyError asset_type), w)
            | Some endpoint \<Rightarrow> requests_get_json endpoint w) of
        (Inl e, w1) \<Rightarrow>
          (if is_KeyError e
           then plain_frame PNone (print (Text (asset_type_msg asset_type)) w1)
           else (Inl e, w1))
      | (Inr data, w1) \<Rightarrow> plain_frame data w1)"


subsection \<open>\<^verbatim>\<open>get_market_news\<close>\<close>

definition market_type_dict ::
  "client \<Rightarrow> string option \<Rightarrow> int \<Rightarrow> (string \<times> string list) list" where
  "market_type_dict self symbol limit =
     [(''stock'',
        [''https://financialmodelingprep.com/api/v3/stock_news?limit='' @ str_int limit
           @ ''&apikey='' @ apikey self,
         ''https://financialmodelingprep.com/api/v3/stock_news?tickers='' @ str_opt symbol
           @ ''&limit='' @ str_int limit @ ''&apikey='' @ apikey self]),
      (''forex'',
        [''https://financialmodelingprep.com/api/v4/forex_news?limit='' @ str_int limit
           @ ''&apikey='' @ apikey self,
         ''https://financialmodelingprep.com/api/v4/forex_news?symbol='' @ str_opt symbol
           @ ''&limit='' @ str_int limit @ ''&apikey='' @ apikey self]),
      (''crypto'',
        [''https://financialmodelingprep.com/api/v4/crypto_news?limit='' @ str_int limit
           @ ''&apikey='' @ apikey self,
         ''https://financialmodelingprep.com/api/v4/crypto_news?symbol='' @ str_opt symbol
           @ ''&limit='' @ str_int limit @ ''&apikey='' @ apikey self])]"

definition market_type_msg :: "string \<Rightarrow> string" where
  "market_type_msg market_type =
     CHR 0x27 # market_type @ CHR 0x27 #
     '' is not valid market_type - choose info type from possible options [stock,forex,crypto]''"

definition news_endpoint ::
  "client \<Rightarrow> string \<Rightarrow> string option \<Rightarrow> int \<Rightarrow> exn + string" where
  "news_endpoint self market_type symbol limit =
     (case map_of (market_type_dict self symbol limit) market_type of
        None \<Rightarrow> Inl (KeyError market_type)
      | Some templates \<Rightarrow>
          (case py_nth templates 0 of
             Inl e \<Rightarrow> Inl e
           | Inr endpoint \<Rightarrow> (if symbol \<noteq> None then py_nth templates 1 else Inr endpoint)))"

definition get_market_news ::
  "client \<Rightarrow> string \<Rightarrow> string option \<Rightarrow> int \<Rightarrow> world \<Rightarrow> (exn + retval) \<times> world" where
  "get_market_news self market_type symbol limit w =
     (case (case news_endpoint self market_type symbol limit of
              Inl e \<Rightarrow> (Inl e, w)
            | Inr endpoint \<Rightarrow> requests_get_json endpoint w) of
        (Inl e, w1) \<Rightarrow>
          (if is_KeyError e
           then plain_frame PNone (print (Text (market_type_msg market_type)) w1)
           else (Inl e, w1))
      | (Inr data, w1) \<Rightarrow> plain_frame data w1)"


subsection \<open>\<^verbatim>\<open>get_sentiment\<close>\<close>

definition sentiment_endpoint :: "client \<Rightarrow> string \<Rightarrow> int \<Rightarrow> string" where
  "sentiment_endpoint self symbol limit =
     ''https://financialmodelingprep.com/api/v4/historical/social-sentiment?symbol='' @ symbol
       @ ''&limit='' @ str_int limit @ ''&apikey='' @ apikey self"

definition get_sentiment :: "client \<Rightarrow> string \<Rightarrow> int \<Rightarrow> world \<Rightarrow> (exn + retval) \<times> world" where
  "get_sentiment self symbol limit w =
     (case requests_get_json (sentiment_endpoint self symbol limit) w of
        (Inl e, w1) \<Rightarrow> (Inl e, w1)
      | (Inr data, w1) \<Rightarrow>
          (case from_dict data of
             Inl e \<Rightarrow> (if is_ValueError e then (Inr (Frame empty_df), print (Repr data) w1)
                       else (Inl e, w1))
           | Inr df \<Rightarrow> (Inr (Frame df), w1)))"


subsection \<open>\<^verbatim>\<open>get_daily_prices\<close>\<close>

definition daily_prices_endpoint :: "client \<Rightarrow> string \<Rightarrow> string" where
  "daily_prices_endpoint self symbol =
     ''https://financialmodelingprep.com/api/v3/historical-price-full/'' @ symbol
       @ ''?apikey='' @ apikey self"

text \<open>
  The three statements after the \<^verbatim>\<open>try\<close> block: tag the frame with the instrument,
  parse the \<^verbatim>\<open>date\<close> column, make it the index. \<^verbatim>\<open>df['date']\<close> raises \<^verbatim>\<open>KeyError\<close> on
  a frame without that column, and nothing catches it.
\<close>

definition daily_prices_index :: "string \<Rightarrow> dataframe \<Rightarrow> exn + dataframe" where
  "daily_prices_index symbol df =
     (let df1 = df\<lparr>attrs := AList.update ''instrument'' symbol (attrs df)\<rparr>
      in case getitem df1 ''date'' of
           Inl e \<Rightarrow> Inl e
         | Inr col \<Rightarrow>
             (case to_datetime col of
                Inl e \<Rightarrow> Inl e
              | Inr stamps \<Rightarrow>
                  (case setitem df1 ''date'' stamps of
                     Inl e \<Rightarrow> Inl e
                   | Inr df2 \<Rightarrow> set_index df2 ''date'')))"

definition get_daily_prices :: "client \<Rightarrow> string \<Rightarrow> world \<Rightarrow> (exn + retval) \<times> world" where
  "get_daily_prices self symbol w =
     (case requests_get_json (daily_prices_endpoint self symbol) w of
        (Inl e, w1) \<Rightarrow> (Inl e, w1)
      | (Inr data, w1) \<Rightarrow>
          (case (case subscript data ''historical'' of
                   Inl e \<Rightarrow> Inl e
                 | Inr h \<Rightarrow> from_dict h) of
             Inl e \<Rightarrow>
               (if is_ValueError e
                then (map_sum id Frame (daily_prices_index symbol empty_df), print (Repr data) w1)
                else (Inl e, w1))
           | Inr df \<Rightarrow> (map_sum id Frame (daily_prices_index symbol df), w1)))"


section \<open>The chart renderer\<close>

subsection \<open>Label slicing on a date index\<close>

fun label_dates :: "label list \<Rightarrow> date list option" where
  "label_dates [] = Some []"
| "label_dates (l # ls) =
     (case l of
        LDate d \<Rightarrow> (case label_dates ls of None \<Rightarrow> None | Some ds \<Rightarrow> Some (d # ds))
      | _ \<Rightarrow> None)"

text \<open>
  A bound of a slice: absent, or a \<^verbatim>\<open>yyyy-MM-dd\<close> string, which pandas casts to a
  \<^verbatim>\<open>Timestamp\<close> and so raises on a date outside the range.
\<close>

definition slice_bound :: "string option \<Rightarrow> exn + date option" where
  "slice_bound b =
     (case b of
        None \<Rightarrow> Inr None
      | Some s \<Rightarrow>
          (case parse_date s of
             None \<Rightarrow> Inl OutsideModel
           | Some d \<Rightarrow> (case to_timestamp d of Inl e \<Rightarrow> Inl e | Inr t \<Rightarrow> Inr (Some t))))"

definition in_window :: "date option \<Rightarrow> date option \<Rightarrow> date \<Rightarrow> bool" where
  "in_window lo hi d =
     ((case lo of None \<Rightarrow> True | Some a \<Rightarrow> a \<le> d) \<and> (case hi of None \<Rightarrow> True | Some b \<Rightarrow> d \<le> b))"

text \<open>The entries of a list that a boolean mask selects.\<close>

definition mask_select :: "bool list \<Rightarrow> 'a list \<Rightarrow> 'a list" where
  "mask_select keep xs = map snd (filter fst (zip keep xs))"

text \<open>The message of the \<^verbatim>\<open>KeyError\<close> that label slicing raises on an unordered index.\<close>

definition non_monotonic_msg :: string where
  "non_monotonic_msg =
     ''Value based partial slicing on non-monotonic DatetimeIndexes with non-existing keys is not allowed.''"

definition bound_missing :: "date option \<Rightarrow> date list \<Rightarrow> bool" where
  "bound_missing b ds = (case b of None \<Rightarrow> False | Some d \<Rightarrow> d \<notin> set ds)"

text \<open>
  \<^verbatim>\<open>df.loc[start:end]\<close> with string bounds on a \<^verbatim>\<open>DatetimeIndex\<close> (pandas 2):
  \<^item> on an index that increases monotonically the bounds are positions found by
    \<^verbatim>\<open>searchsorted\<close>: the first row not before \<open>start\<close>, and one past the last row not after
    \<open>end\<close>; the result is the positional slice between them;
  \<^item> on any other index (a descending one too) each bound must be a timestamp of the index,
    or \<^verbatim>\<open>KeyError\<close> is raised. A start bound is cast to the first nanosecond of its day;
    an end bound is cast to the last nanosecond of its day, which is no timestamp of an
    index of whole days, so an end bound always raises there. Otherwise the rows not before
    the start bound are selected by a mask.
  The result is a new frame with the columns and the \<^verbatim>\<open>attrs\<close> of \<open>df\<close>. An index that is not
  made of dates, and a bound that is not a \<^verbatim>\<open>yyyy-MM-dd\<close> date, are outside the model.
\<close>

definition loc_slice :: "dataframe \<Rightarrow> string option \<Rightarrow> string option \<Rightarrow> exn + dataframe" where
  "loc_slice df start end' =
     (case label_dates (index df) of
        None \<Rightarrow> Inl OutsideModel
      | Some ds \<Rightarrow>
          (case slice_bound start of
             Inl e \<Rightarrow> Inl e
           | Inr lo \<Rightarrow>
               (case slice_bound end' of
                  Inl e \<Rightarrow> Inl e
                | Inr hi \<Rightarrow>
                    (if sorted ds then
                       (let l = (case lo of None \<Rightarrow> 0
                                 | Some a \<Rightarrow> length (takeWhile (\<lambda>d. d < a) ds));
                            r = (case hi of None \<Rightarrow> length ds
                                 | Some b \<Rightarrow> length (takeWhile (\<lambda>d. d \<le> b) ds))
                        in Inr (df\<lparr>index := drop l (take r (index df)),
                                   rows := drop l (take r (rows df))\<rparr>))
                     else if bound_missing lo ds \<or> hi \<noteq> None then
                       Inl (KeyError non_monotonic_msg)
                     else
                       (let keep = map (in_window lo None) ds
                        in Inr (df\<lparr>index := mask_select keep (index df),
                                   rows := mask_select keep (rows df)\<rparr>))))))"


subsection \<open>\<^verbatim>\<open>draw_chart\<close>\<close>

definition chart_type_msg :: "string \<Rightarrow> string" where
  "chart_type_msg chart_type =
     CHR 0x27 # chart_type @ CHR 0x27 #
     '' is not valid option for chart_type - choose from possible options ['candle','line','ohlc']''"

text \<open>\<^verbatim>\<open>str\<close> of an index label, as the f-string of the title renders it.\<close>

definition str_label :: "label \<Rightarrow> string" where
  "str_label l = (case l of LInt i \<Rightarrow> str_int i | LStr s \<Rightarrow> s | LDate d \<Rightarrow> str_date d)"

text \<open>
  The range selection of \<^verbatim>\<open>draw_chart\<close>: \<^verbatim>\<open>df.index[0]\<close> and \<^verbatim>\<open>df.index[-1]\<close> (an
  \<^verbatim>\<open>IndexError\<close> on an empty frame), then the four branches on \<^verbatim>\<open>start\<close> and \<^verbatim>\<open>end\<close>.
  A slice is a new object; without bounds \<open>df_plot\<close> is \<open>df\<close> itself. The result is the
  reference \<open>df_plot\<close> with the texts \<open>start_to_plot\<close> and \<open>end_to_plot\<close> of the title.
\<close>

definition plot_window ::
  "nat \<Rightarrow> string option \<Rightarrow> string option \<Rightarrow> world \<Rightarrow> (exn + nat \<times> string \<times> string) \<times> world" where
  "plot_window df start end' w =
     (case index (frames w df) of
        [] \<Rightarrow> (Inl IndexError, w)
      | i0 # rest \<Rightarrow>
          (let start_to_plot = str_label i0;
               end_to_plot = str_label (last (i0 # rest))
           in if start \<noteq> None \<and> end' = None then
                (case loc_slice (frames w df) start None of
                   Inl e \<Rightarrow> (Inl e, w)
                 | Inr d \<Rightarrow>
                     (case new_frame d w of
                        (df_plot, w1) \<Rightarrow> (Inr (df_plot, str_opt start, end_to_plot), w1)))
              else if end' \<noteq> None \<and> start = None then
                (case loc_slice (frames w df) None end' of
                   Inl e \<Rightarrow> (Inl e, w)
                 | Inr d \<Rightarrow>
                     (case new_frame d w of
                        (df_plot, w1) \<Rightarrow> (Inr (df_plot, start_to_plot, str_opt end'), w1)))
              else if end' \<noteq> None \<and> start \<noteq> None then
                (case loc_slice (frames w df) start end' of
                   Inl e \<Rightarrow> (Inl e, w)
                 | Inr d \<Rightarrow>
                     (case new_frame d w of
                        (df_plot, w1) \<Rightarrow> (Inr (df_plot, str_opt start, str_opt end'), w1)))
              else (Inr (df, start_to_plot, end_to_plot), w)))"

text \<open>
  \<^verbatim>\<open>make_subplots(rows=2, cols=1, row_heights=[0.8,0.2], shared_xaxes=True,
  vertical_spacing=0.01)\<close>
\<close>

definition make_subplots :: figure where
  "make_subplots =
     \<lparr>grid_rows = 2, grid_cols = 1, row_heights = [8 / 10, 2 / 10], shared_xaxes = True,
      vertical_spacing = 1 / 100, height = None, traces = [], title = None,
      rangeslider_visible = None, rangebreaks = []\<rparr>"

definition add_trace :: "trace \<Rightarrow> nat \<Rightarrow> nat \<Rightarrow> figure \<Rightarrow> figure" where
  "add_trace t r c fig = fig\<lparr>traces := traces fig @ [(t, r, c)]\<rparr>"

text \<open>
  The price trace of the primary panel; the columns are read in the order the call names
  them, and a missing one raises \<^verbatim>\<open>KeyError\<close>.
\<close>

definition price_traces :: "dataframe \<Rightarrow> string \<Rightarrow> string \<Rightarrow> exn + trace list" where
  "price_traces d chart_type name =
     (if chart_type = ''candle'' then
        (case getitem d ''open'' of Inl e \<Rightarrow> Inl e | Inr op \<Rightarrow>
          (case getitem d ''high'' of Inl e \<Rightarrow> Inl e | Inr hi \<Rightarrow>
            (case getitem d ''low'' of Inl e \<Rightarrow> Inl e | Inr lo \<Rightarrow>
              (case getitem d ''close'' of Inl e \<Rightarrow> Inl e | Inr cl \<Rightarrow>
                 Inr [Candlestick (index d) op hi lo cl name]))))
      else if chart_type = ''line'' then
        (case getitem d ''close'' of Inl e \<Rightarrow> Inl e | Inr cl \<Rightarrow>
           Inr [Scatter (index d) cl name])
      else if chart_type = ''ohlc'' then
        (case getitem d ''open'' of Inl e \<Rightarrow> Inl e | Inr op \<Rightarrow>
          (case getitem d ''high'' of Inl e \<Rightarrow> Inl e | Inr hi \<Rightarrow>
            (case getitem d ''low'' of Inl e \<Rightarrow> Inl e | Inr lo \<Rightarrow>
              (case getitem d ''close'' of Inl e \<Rightarrow> Inl e | Inr cl \<Rightarrow>
                 Inr [Ohlc (index d) op hi lo cl name]))))
      else Inr [])"

definition chart_title :: "string \<Rightarrow> string \<Rightarrow> string \<Rightarrow> string \<Rightarrow> string \<Rightarrow> string" where
  "chart_title chart_type symbol interval start_to_plot end_to_plot =
     ''|CHART TYPE: '' @ chart_type @ '' |SYMBOL: '' @ symbol @ '' |INTERVAL: '' @ interval
       @ '' |START: '' @ start_to_plot @ '' |END: '' @ end_to_plot"

text \<open>
  The figure \<^verbatim>\<open>draw_chart\<close> builds from \<open>df_plot\<close>: read the instrument and the
  interval from \<^verbatim>\<open>attrs\<close>, format the title, lay out two panels, add the volume bars to
  the second panel and the price trace to the first, then set the title, hide the range
  slider and skip the weekends.
\<close>

definition build_figure :: "dataframe \<Rightarrow> string \<Rightarrow> string \<Rightarrow> string \<Rightarrow> exn + figure" where
  "build_figure d chart_type start_to_plot end_to_plot =
     (case map_of (attrs d) ''instrument'' of
        None \<Rightarrow> Inl (KeyError ''instrument'')
      | Some symbol \<Rightarrow>
          (let interval = (case map_of (attrs d) ''interval'' of
                             None \<Rightarrow> ''daily'' | Some i \<Rightarrow> i);
               title = chart_title chart_type symbol interval start_to_plot end_to_plot;
               fig0 = make_subplots\<lparr>height := Some 800\<rparr>
           in case getitem d ''volume'' of
                Inl e \<Rightarrow> Inl e
              | Inr volume \<Rightarrow>
                  (let fig1 = add_trace (Bar (index d) volume ''volume'' ''blue'') 2 1 fig0
                   in case price_traces d chart_type symbol of
                        Inl e \<Rightarrow> Inl e
                      | Inr ts \<Rightarrow>
                          (let fig2 = fold (\<lambda>t. add_trace t 1 1) ts fig1;
                               fig3 = fig2\<lparr>title := Some title,
                                           rangeslider_visible := Some False\<rparr>
                           in Inr (fig3\<lparr>rangebreaks := [(''sat'', ''mon'')]\<rparr>)))))"

text \<open>
  The rest of \<^verbatim>\<open>draw_chart\<close>: build the figure from the object \<open>df_plot\<close> and show it.
  The method ends without a \<^verbatim>\<open>return\<close>, so the result is \<^verbatim>\<open>None\<close>.
\<close>

definition render ::
  "nat \<Rightarrow> string \<Rightarrow> string \<Rightarrow> string \<Rightarrow> world \<Rightarrow> (exn + retval) \<times> world" where
  "render df_plot chart_type start_to_plot end_to_plot w =
     (case build_figure (frames w df_plot) chart_type start_to_plot end_to_plot of
        Inl e \<Rightarrow> (Inl e, w)
      | Inr fig \<Rightarrow> (Inr PyNone, w\<lparr>shown := shown w @ [fig]\<rparr>))"

definition draw_chart ::
  "client \<Rightarrow> nat \<Rightarrow> string option \<Rightarrow> string option \<Rightarrow> string \<Rightarrow> world \<Rightarrow> (exn + retval) \<times> world" where
  "draw_chart self df start end' chart_type w =
     (if chart_type \<notin> set [''candle'', ''line'', ''ohlc'']
      then (Inr (Num 0), print (Text (chart_type_msg chart_type)) w)
      else
        (case plot_window df start end' w of
           (Inl e, w1) \<Rightarrow> (Inl e, w1)
         | (Inr (df_plot, start_to_plot, end_to_plot), w1) \<Rightarrow>
             render df_plot chart_type start_to_plot end_to_plot w1))"


section \<open>Notions the properties are stated with\<close>

subsection \<open>Statement URLs, as the specification words them\<close>

text \<open>
  The specification describes the statement endpoint by its parts: the path of the report
  type, the suffix \<^verbatim>\<open>-as-reported\<close> when the flag asks for it (never for the full
  statement, which has one template), the symbol, and the query \<^verbatim>\<open>period\<close>,
  \<^verbatim>\<open>limit\<close>, \<^verbatim>\<open>apikey\<close>. The source instead looks the URL up in \<open>report_type_dict\<close>.
\<close>

definition statement_name :: "string \<Rightarrow> string" where
  "statement_name report_type =
     (if report_type = ''balance_statement'' then ''balance-sheet-statement''
      else if report_type = ''income_statement'' then ''income-statement''
      else if report_type = ''cashflow_statement'' then ''cash-flow-statement''
      else ''financial-statement-full-as-reported'')"

definition statement_url ::
  "client \<Rightarrow> string \<Rightarrow> string \<Rightarrow> string \<Rightarrow> int \<Rightarrow> bool \<Rightarrow> string" where
  "statement_url self symbol report_type period limit as_reported =
     ''https://financialmodelingprep.com/api/v3/'' @ statement_name report_type
       @ (if as_reported \<and> report_type \<noteq> ''full_statement'' then ''-as-reported'' else [])
       @ ''/'' @ symbol @ ''?period='' @ period @ ''&limit='' @ str_int limit
       @ ''&apikey='' @ apikey self"

subsection \<open>The credential on a URL, and the requests of one call\<close>

text \<open>The URL ends with the query parameter \<^verbatim>\<open>apikey\<close> set to the client's credential.\<close>

definition carries_apikey :: "client \<Rightarrow> string \<Rightarrow> bool" where
  "carries_apikey self url =
     (suffix (''?apikey='' @ apikey self) url \<or> suffix (''&apikey='' @ apikey self) url)"

text \<open>The URLs requested between the world \<open>w\<close> and a later world \<open>w'\<close>.\<close>

definition issued :: "world \<Rightarrow> world \<Rightarrow> string list" where
  "issued w w' = drop (length (requested w)) (requested w')"

subsection \<open>The inclusive date range, as the specification words it\<close>




subsection \<open>Well-formed frames and price series\<close>





subsection \<open>Example data\<close>

text \<open>A world in which nothing has happened yet, with a given remote service.\<close>

definition world0 :: "(string \<Rightarrow> reply) \<Rightarrow> world" where
  "world0 t =
     \<lparr>transport = t, requested = [], printed = [], frames = (\<lambda>r. empty_df), next_ref = 0,
      shown = []\<rparr>"

definition json_reply :: "pyval \<Rightarrow> reply" where
  "json_reply v = Reply \<lparr>status_code = 200, body = JsonBody v\<rparr>"

text \<open>
  The response of the specification's example:
  \<^verbatim>\<open>{"historical":[{"date":"2023-01-03","open":1,"high":2,"low":0.5,"close":1.5,"volume":100}]}\<close>
  and the frame it is expected to give.
\<close>

definition aapl_history :: pyval where
  "aapl_history =
     PDict [(''historical'',
       PList [PDict [(''date'', PStr ''2023-01-03''), (''open'', PInt 1), (''high'', PInt 2),
                     (''low'', PFloat (1 / 2)), (''close'', PFloat (3 / 2)),
                     (''volume'', PInt 100)]])]"

definition aapl_frame :: dataframe where
  "aapl_frame =
     \<lparr>columns = [LStr ''open'', LStr ''high'', LStr ''low'', LStr ''close'', LStr ''volume''],
      index = [LDate (2023, 1, 3)],
      index_name = Some ''date'',
      rows = [[Val (PInt 1), Val (PInt 2), Val (PFloat (1 / 2)), Val (PFloat (3 / 2)),
               Val (PInt 100)]],
      attrs = [(''instrument'', ''AAPL'')]\<rparr>"

text \<open>The body the API answers with when it rejects a request.\<close>

definition error_body :: pyval where
  "error_body = PDict [(''Error Message'', PStr ''Invalid API KEY.'')]"

text \<open>A price series spanning 2023-01-01 to 2023-01-10, held by the object 0.\<close>

definition january_series :: dataframe where
  "january_series =
     \<lparr>columns = [LStr ''open'', LStr ''high'', LStr ''low'', LStr ''close'', LStr ''volume''],
      index = map (\<lambda>d. LDate (2023, 1, d)) [1, 2, 3, 4, 5, 6, 7, 8, 9, 10],
      index_name = Some ''date'',
      rows = map (\<lambda>d. [Val (PInt 10), Val (PInt 12), Val (PInt 9), Val (PInt 11),
                          Val (PInt (int (100 * d)))]) [1, 2, 3, 4, 5, 6, 7, 8, 9, 10],
      attrs = [(''instrument'', ''AAPL'')]\<rparr>"

definition january_world :: world where
  "january_world =
     (world0 (\<lambda>u. NetworkFailure))
       \<lparr>frames := (\<lambda>r. empty_df)(0 := january_series), next_ref := 1\<rparr>"



definition demo :: client where
  "demo = \<lparr>apikey = ''demo''\<rparr>"


section \<open>Basic facts about the world\<close>

lemma requested_print [simp]: "requested (print l w) = requested w"
  by (simp add: print_def)

lemma transport_print [simp]: "transport (print l w) = transport w"
  by (simp add: print_def)

lemma frames_print [simp]: "frames (print l w) = frames w"
  by (simp add: print_def)

lemma requests_get_json_requested:
  "requested (snd (requests_get_json u w)) = requested w @ [u]"
  by (simp add: requests_get_json_def requests_get_def Let_def split: reply.splits)

lemma requests_get_json_transport [simp]:
  "transport (snd (requests_get_json u w)) = transport w"
  by (simp add: requests_get_json_def requests_get_def Let_def split: reply.splits)

lemma requests_get_json_result:
  "fst (requests_get_json u w)
   = (case transport w u of NetworkFailure \<Rightarrow> Inl ConnectionError | Reply r \<Rightarrow> json r)"
  by (simp add: requests_get_json_def requests_get_def Let_def split: reply.splits)

lemma company_info_frame_requested [simp]:
  "requested (snd (company_info_frame info_type d w)) = requested w"
  by (simp add: company_info_frame_def split: sum.splits)

lemma financial_frame_requested [simp]:
  "requested (snd (financial_frame d w)) = requested w"
  by (simp add: financial_frame_def split: sum.splits)

lemma plain_frame_requested [simp]:
  "requested (snd (plain_frame d w)) = requested w"
  by (simp add: plain_frame_def split: sum.splits)

lemma company_info_frame_transport [simp]:
  "transport (snd (company_info_frame info_type d w)) = transport w"
  by (simp add: company_info_frame_def split: sum.splits)

lemma financial_frame_transport [simp]:
  "transport (snd (financial_frame d w)) = transport w"
  by (simp add: financial_frame_def split: sum.splits)

lemma plain_frame_transport [simp]:
  "transport (snd (plain_frame d w)) = transport w"
  by (simp add: plain_frame_def split: sum.splits)

lemma from_dict_None: "from_dict PNone = Inr empty_df"
  by (simp add: from_dict_def)

lemma empty_df_reshaped:
  "rename_info (transpose_df empty_df) = empty_df" "rename_info empty_df = empty_df"
  by (simp_all add: rename_info_def transpose_df_def empty_df_def)

lemma str_int_5: "str_int 5 = ''5''"
  by (simp add: str_int_def str_nat.simps)

lemma str_int_10: "str_int 10 = ''10''"
  by (simp add: str_int_def str_nat.simps)



lemma parse_date_examples:
  "parse_date ''2023-01-03'' = Some (2023, 1, 3)"
  "parse_date ''2023-01-02'' = Some (2023, 1, 2)"
  by (simp_all add: parse_date_def digit_val_def days_in_month_def leap_year_def)


section \<open>Invalid selectors\<close>

text \<open>
  C1, counterexample. The claim promises an empty table for every invalid selector. With the
  period \<^verbatim>\<open>monthly\<close>, \<^verbatim>\<open>get_financial_data\<close> returns the integer 0, which is not a
  table.
\<close>

theorem invalid_period_returns_zero:
  "fst (get_financial_data demo ''AAPL'' ''balance_statement'' ''monthly'' 10 False
          (world0 (\<lambda>u. NetworkFailure))) = Inr (Num 0)
   \<and> \<not> empty_table (Num 0)"
  by (simp add: get_financial_data_def)

text \<open>
  C1, as amended. For every selector value outside the supported set the operation prints
  one message that lists the valid options, requests nothing (the world changes in its
  printed lines only) and raises nothing. \<^verbatim>\<open>get_company_info\<close> (info type),
  \<^verbatim>\<open>get_financial_data\<close> (report type, the period being valid), \<^verbatim>\<open>get_instruments\<close>
  (asset type) and \<^verbatim>\<open>get_market_news\<close> (market type) return the empty frame,
  which is an empty table; \<^verbatim>\<open>get_financial_data\<close> (period) and \<^verbatim>\<open>draw_chart\<close>
  (chart type) return the integer 0, which is not a table.
\<close>

theorem invalid_selector_outcome:
  "(info_type \<notin> set [''company_profile'', ''company_rating'', ''historical_rating'',
                       ''recommendations'']
      \<longrightarrow> get_company_info self symbol limit info_type w
          = (Inr (Frame empty_df), w\<lparr>printed := printed w @ [Text (info_type_msg info_type)]\<rparr>))
   \<and> (period \<notin> set [''annual'', ''quarter'']
      \<longrightarrow> get_financial_data self symbol report_type period limit as_reported w
          = (Inr (Num 0), w\<lparr>printed := printed w @ [Text (period_msg period)]\<rparr>))
   \<and> (period' \<in> set [''annual'', ''quarter'']
      \<and> report_type' \<notin> set [''balance_statement'', ''income_statement'', ''cashflow_statement'',
                              ''full_statement'']
      \<longrightarrow> get_financial_data self symbol report_type' period' limit as_reported w
          = (Inr (Frame empty_df),
             w\<lparr>printed := printed w @ [Text (report_type_msg report_type')]\<rparr>))
   \<and> (asset_type \<notin> set [''forex'', ''stock'', ''commodities'', ''crypto'']
      \<longrightarrow> get_instruments self asset_type w
          = (Inr (Frame empty_df), w\<lparr>printed := printed w @ [Text (asset_type_msg asset_type)]\<rparr>))
   \<and> (market_type \<notin> set [''stock'', ''forex'', ''crypto'']
      \<longrightarrow> get_market_news self market_type news_symbol limit w
          = (Inr (Frame empty_df),
             w\<lparr>printed := printed w @ [Text (market_type_msg market_type)]\<rparr>))
   \<and> (chart_type \<notin> set [''candle'', ''line'', ''ohlc'']
      \<longrightarrow> draw_chart self df start end' chart_type w
          = (Inr (Num 0), w\<lparr>printed := printed w @ [Text (chart_type_msg chart_type)]\<rparr>))
   \<and> empty_table (Frame empty_df) \<and> \<not> empty_table (Num 0)"
proof (intro conjI impI)
  assume "info_type \<notin> set [''company_profile'', ''company_rating'', ''historical_rating'',
                       ''recommendations'']"
  then show "get_company_info self symbol limit info_type w
          = (Inr (Frame empty_df), w\<lparr>printed := printed w @ [Text (info_type_msg info_type)]\<rparr>)"
    by (simp add: get_company_info_def company_info_dict_def is_KeyError_def
        company_info_frame_def from_dict_None empty_df_reshaped print_def)
next
  assume "period \<notin> set [''annual'', ''quarter'']"
  then show "get_financial_data self symbol report_type period limit as_reported w
          = (Inr (Num 0), w\<lparr>printed := printed w @ [Text (period_msg period)]\<rparr>)"
    by (simp add: get_financial_data_def print_def)
next
  assume a: "period' \<in> set [''annual'', ''quarter'']
      \<and> report_type' \<notin> set [''balance_statement'', ''income_statement'', ''cashflow_statement'',
                              ''full_statement'']"
  then have "financial_endpoint self symbol report_type' period' limit as_reported
             = Inl (KeyError report_type')"
    by (simp add: financial_endpoint_def report_type_dict_def)
  with a show "get_financial_data self symbol report_type' period' limit as_reported w
          = (Inr (Frame empty_df),
             w\<lparr>printed := printed w @ [Text (report_type_msg report_type')]\<rparr>)"
    by (simp add: get_financial_data_def is_KeyError_def financial_frame_def from_dict_None
        empty_df_reshaped print_def)
next
  assume "asset_type \<notin> set [''forex'', ''stock'', ''commodities'', ''crypto'']"
  then show "get_instruments self asset_type w
          = (Inr (Frame empty_df), w\<lparr>printed := printed w @ [Text (asset_type_msg asset_type)]\<rparr>)"
    by (simp add: get_instruments_def asset_type_dict_def is_KeyError_def plain_frame_def
        from_dict_None print_def)
next
  assume "market_type \<notin> set [''stock'', ''forex'', ''crypto'']"
  then have "news_endpoint self market_type news_symbol limit = Inl (KeyError market_type)"
    by (simp add: news_endpoint_def market_type_dict_def)
  then show "get_market_news self market_type news_symbol limit w
          = (Inr (Frame empty_df),
             w\<lparr>printed := printed w @ [Text (market_type_msg market_type)]\<rparr>)"
    by (simp add: get_market_news_def is_KeyError_def plain_frame_def from_dict_None print_def)
next
  assume "chart_type \<notin> set [''candle'', ''line'', ''ohlc'']"
  then show "draw_chart self df start end' chart_type w
          = (Inr (Num 0), w\<lparr>printed := printed w @ [Text (chart_type_msg chart_type)]\<rparr>)"
    by (simp add: draw_chart_def print_def)
next
  show "empty_table (Frame empty_df)" by (simp add: df_empty_def empty_df_def)
next
  show "\<not> empty_table (Num 0)" by simp
qed

text \<open>
  The amended statement at one invalid value per selector, in a world whose remote service
  is unreachable: no call notices, since none sends a request.
\<close>

theorem invalid_selector_outcome_witness:
  "''profile'' \<notin> set [''company_profile'', ''company_rating'', ''historical_rating'',
                       ''recommendations'']
   \<and> get_company_info demo ''AAPL'' 10 ''profile'' (world0 (\<lambda>u. NetworkFailure))
       = (Inr (Frame empty_df),
          (world0 (\<lambda>u. NetworkFailure))\<lparr>printed := [Text (info_type_msg ''profile'')]\<rparr>)
   \<and> ''monthly'' \<notin> set [''annual'', ''quarter'']
   \<and> get_financial_data demo ''AAPL'' ''income_statement'' ''monthly'' 10 False
         (world0 (\<lambda>u. NetworkFailure))
       = (Inr (Num 0), (world0 (\<lambda>u. NetworkFailure))\<lparr>printed := [Text (period_msg ''monthly'')]\<rparr>)
   \<and> ''annual'' \<in> set [''annual'', ''quarter'']
   \<and> ''income'' \<notin> set [''balance_statement'', ''income_statement'', ''cashflow_statement'',
                         ''full_statement'']
   \<and> get_financial_data demo ''AAPL'' ''income'' ''annual'' 10 False
         (world0 (\<lambda>u. NetworkFailure))
       = (Inr (Frame empty_df),
          (world0 (\<lambda>u. NetworkFailure))\<lparr>printed := [Text (report_type_msg ''income'')]\<rparr>)
   \<and> ''bonds'' \<notin> set [''forex'', ''stock'', ''commodities'', ''crypto'']
   \<and> get_instruments demo ''bonds'' (world0 (\<lambda>u. NetworkFailure))
       = (Inr (Frame empty_df),
          (world0 (\<lambda>u. NetworkFailure))\<lparr>printed := [Text (asset_type_msg ''bonds'')]\<rparr>)
   \<and> ''bonds'' \<notin> set [''stock'', ''forex'', ''crypto'']
   \<and> get_market_news demo ''bonds'' None 10 (world0 (\<lambda>u. NetworkFailure))
       = (Inr (Frame empty_df),
          (world0 (\<lambda>u. NetworkFailure))\<lparr>printed := [Text (market_type_msg ''bonds'')]\<rparr>)
   \<and> ''pie'' \<notin> set [''candle'', ''line'', ''ohlc'']
   \<and> draw_chart demo 0 None None ''pie'' (world0 (\<lambda>u. NetworkFailure))
       = (Inr (Num 0), (world0 (\<lambda>u. NetworkFailure))\<lparr>printed := [Text (chart_type_msg ''pie'')]\<rparr>)"
  using invalid_selector_outcome [of "''profile''" demo "''AAPL''" 10
      "world0 (\<lambda>u. NetworkFailure)" "''monthly''" "''income_statement''" False
      "''annual''" "''income''" "''bonds''" "''bonds''" None "''pie''" 0 None None]
  by (simp add: world0_def)


section \<open>The statement URL\<close>

lemma financial_endpoint_valid:
  assumes "report_type \<in> set [''balance_statement'', ''income_statement'', ''cashflow_statement'',
                                ''full_statement'']"
  shows "financial_endpoint self symbol report_type period limit as_reported
         = Inr (statement_url self symbol report_type period limit as_reported)"
  using assms
  by (auto simp add: financial_endpoint_def report_type_dict_def py_nth_def statement_url_def
      statement_name_def)

lemma get_financial_data_requested:
  assumes "financial_endpoint self symbol report_type period limit as_reported = Inr u"
    and "period \<in> set [''annual'', ''quarter'']"
  shows "requested (snd (get_financial_data self symbol report_type period limit as_reported w))
         = requested w @ [u]"
proof -
  obtain r w1 where rw: "requests_get_json u w = (r, w1)" by (cases "requests_get_json u w")
  have "requested w1 = requested w @ [u]" using requests_get_json_requested [of u w] rw by simp
  then show ?thesis using assms rw
    by (cases r) (simp_all add: get_financial_data_def)
qed

text \<open>
  C2. For every valid report type and period, \<^verbatim>\<open>get_financial_data\<close> requests exactly
  one URL, the statement URL of the specification with the as-reported, period and limit
  substitutions. In particular the call for \<^verbatim>\<open>AAPL\<close>, \<^verbatim>\<open>income_statement\<close>,
  \<^verbatim>\<open>quarter\<close>, limit 5, as reported, requests
  \<^verbatim>\<open>/api/v3/income-statement-as-reported/AAPL\<close> with \<^verbatim>\<open>period=quarter&limit=5\<close>.
\<close>

theorem get_financial_data_url:
  "(report_type \<in> set [''balance_statement'', ''income_statement'', ''cashflow_statement'',
                        ''full_statement'']
    \<and> period \<in> set [''annual'', ''quarter'']
    \<longrightarrow> requested (snd (get_financial_data self symbol report_type period limit as_reported w))
        = requested w @ [statement_url self symbol report_type period limit as_reported])
   \<and> requested (snd (get_financial_data self ''AAPL'' ''income_statement'' ''quarter'' 5 True w))
     = requested w
       @ [''https://financialmodelingprep.com/api/v3/income-statement-as-reported/AAPL?period=quarter&limit=5&apikey=''
          @ apikey self]"
proof (intro conjI impI)
  assume "report_type \<in> set [''balance_statement'', ''income_statement'', ''cashflow_statement'',
                               ''full_statement'']
    \<and> period \<in> set [''annual'', ''quarter'']"
  then show "requested (snd (get_financial_data self symbol report_type period limit as_reported w))
        = requested w @ [statement_url self symbol report_type period limit as_reported]"
    using get_financial_data_requested [OF financial_endpoint_valid] by blast
next
  have e: "financial_endpoint self ''AAPL'' ''income_statement'' ''quarter'' 5 True
           = Inr (''https://financialmodelingprep.com/api/v3/income-statement-as-reported/AAPL?period=quarter&limit=5&apikey=''
                  @ apikey self)"
    by (simp add: financial_endpoint_def report_type_dict_def py_nth_def str_int_5)
  show "requested (snd (get_financial_data self ''AAPL'' ''income_statement'' ''quarter'' 5 True w))
     = requested w
       @ [''https://financialmodelingprep.com/api/v3/income-statement-as-reported/AAPL?period=quarter&limit=5&apikey=''
          @ apikey self]"
    by (rule get_financial_data_requested [OF e]) simp
qed

theorem get_financial_data_url_witness:
  "''cashflow_statement'' \<in> set [''balance_statement'', ''income_statement'',
                                  ''cashflow_statement'', ''full_statement'']
   \<and> ''annual'' \<in> set [''annual'', ''quarter'']
   \<and> requested (snd (get_financial_data demo ''MSFT'' ''cashflow_statement'' ''annual'' 10 False
                       (world0 (\<lambda>u. NetworkFailure))))
     = [''https://financialmodelingprep.com/api/v3/cash-flow-statement/MSFT?period=annual&limit=10&apikey=demo'']"
  using get_financial_data_url [of "''cashflow_statement''" "''annual''" demo "''MSFT''" 10 False
      "world0 (\<lambda>u. NetworkFailure)"]
  by (simp add: statement_url_def statement_name_def str_int_10 world0_def demo_def)

text \<open>
  C7. For the report type \<^verbatim>\<open>full_statement\<close> the flag \<^verbatim>\<open>as_reported\<close> is ignored:
  with every symbol, period and limit, and in every world, the call with the flag set does
  exactly what the call with the flag cleared does (the same request, the same result).
\<close>

theorem full_statement_ignores_as_reported:
  "get_financial_data self symbol ''full_statement'' period limit True w
   = get_financial_data self symbol ''full_statement'' period limit False w"
proof -
  have "financial_endpoint self symbol ''full_statement'' period limit True
        = financial_endpoint self symbol ''full_statement'' period limit False"
    by (simp add: financial_endpoint_def split: option.splits sum.splits)
  then show ?thesis by (simp only: get_financial_data_def)
qed

theorem full_statement_ignores_as_reported_witness:
  "get_financial_data demo ''AAPL'' ''full_statement'' ''annual'' 10 True
     (world0 (\<lambda>u. json_reply (PList [])))
   = get_financial_data demo ''AAPL'' ''full_statement'' ''annual'' 10 False
     (world0 (\<lambda>u. json_reply (PList [])))
   \<and> requested (snd (get_financial_data demo ''AAPL'' ''full_statement'' ''annual'' 10 True
                       (world0 (\<lambda>u. json_reply (PList [])))))
     = [''https://financialmodelingprep.com/api/v3/financial-statement-full-as-reported/AAPL?period=annual&limit=10&apikey=demo'']"
proof -
  have "requested (snd (get_financial_data demo ''AAPL'' ''full_statement'' ''annual'' 10 False
                       (world0 (\<lambda>u. json_reply (PList [])))))
     = [''https://financialmodelingprep.com/api/v3/financial-statement-full-as-reported/AAPL?period=annual&limit=10&apikey=demo'']"
    by (simp add: get_financial_data_def financial_endpoint_def report_type_dict_def py_nth_def
        str_int_10 demo_def requests_get_json_def requests_get_def world0_def json_reply_def
        json_def financial_frame_def from_dict_def)
  then show ?thesis
    using full_statement_ignores_as_reported [of demo "''AAPL''" "''annual''" 10
        "world0 (\<lambda>u. json_reply (PList []))"]
    by simp
qed


section \<open>The daily price series\<close>

lemma from_dict_aapl_records:
  "from_dict (PList [PDict [(''date'', PStr ''2023-01-03''), (''open'', PInt 1),
                            (''high'', PInt 2), (''low'', PFloat (1 / 2)),
                            (''close'', PFloat (3 / 2)), (''volume'', PInt 100)]])
   = Inr \<lparr>columns = [LStr ''date'', LStr ''open'', LStr ''high'', LStr ''low'', LStr ''close'',
                     LStr ''volume''],
          index = [LInt 0],
          index_name = None,
          rows = [[Val (PStr ''2023-01-03''), Val (PInt 1), Val (PInt 2), Val (PFloat (1 / 2)),
                   Val (PFloat (3 / 2)), Val (PInt 100)]],
          attrs = []\<rparr>"
  by (simp add: from_dict_def records_frame_def uniq_def range_index_def uniform_records_def
      uniform_column_def record_column_def)

lemma daily_prices_index_aapl:
  "daily_prices_index ''AAPL''
     \<lparr>columns = [LStr ''date'', LStr ''open'', LStr ''high'', LStr ''low'', LStr ''close'',
                 LStr ''volume''],
      index = [LInt 0],
      index_name = None,
      rows = [[Val (PStr ''2023-01-03''), Val (PInt 1), Val (PInt 2), Val (PFloat (1 / 2)),
               Val (PFloat (3 / 2)), Val (PInt 100)]],
      attrs = []\<rparr>
   = Inr aapl_frame"
  by (simp add: daily_prices_index_def getitem_def setitem_def set_index_def cell_at_def
      parse_date_examples to_timestamp_def drop_nth_def aapl_frame_def)

text \<open>
  C5. When the remote service answers the request of \<^verbatim>\<open>get_daily_prices("AAPL")\<close> with
  the example body, the result is the frame \<open>aapl_frame\<close>: exactly one row, indexed by
  the date 2023-01-03, the index named \<^verbatim>\<open>date\<close> and no column of that name left, and
  \<^verbatim>\<open>AAPL\<close> attached as the \<^verbatim>\<open>instrument\<close> entry of \<^verbatim>\<open>attrs\<close>.
\<close>

theorem get_daily_prices_single_row:
  assumes "transport w (daily_prices_endpoint self ''AAPL'') = Reply r"
    and "body r = JsonBody aapl_history"
  shows "fst (get_daily_prices self ''AAPL'' w) = Inr (Frame aapl_frame)
         \<and> length (rows aapl_frame) = 1
         \<and> index aapl_frame = [LDate (2023, 1, 3)]
         \<and> LStr ''date'' \<notin> set (columns aapl_frame)
         \<and> map_of (attrs aapl_frame) ''instrument'' = Some ''AAPL''"
proof -
  have "fst (get_daily_prices self ''AAPL'' w) = Inr (Frame aapl_frame)"
    using assms
    by (simp add: get_daily_prices_def requests_get_json_def requests_get_def json_def
        aapl_history_def subscript_def from_dict_aapl_records daily_prices_index_aapl)
  then show ?thesis by (simp add: aapl_frame_def)
qed

theorem get_daily_prices_single_row_witness:
  "transport (world0 (\<lambda>u. json_reply aapl_history)) (daily_prices_endpoint demo ''AAPL'')
     = Reply \<lparr>status_code = 200, body = JsonBody aapl_history\<rparr>
   \<and> body \<lparr>status_code = 200, body = JsonBody aapl_history\<rparr> = JsonBody aapl_history
   \<and> fst (get_daily_prices demo ''AAPL'' (world0 (\<lambda>u. json_reply aapl_history)))
     = Inr (Frame aapl_frame)"
proof -
  have t: "transport (world0 (\<lambda>u. json_reply aapl_history)) (daily_prices_endpoint demo ''AAPL'')
           = Reply \<lparr>status_code = 200, body = JsonBody aapl_history\<rparr>"
    by (simp add: world0_def json_reply_def)
  have b: "body \<lparr>status_code = 200, body = JsonBody aapl_history\<rparr> = JsonBody aapl_history"
    by simp
  show ?thesis using t b get_daily_prices_single_row [OF t b] by simp
qed

text \<open>
  C3. The claim is that a response that cannot be made into a table is printed and an empty
  table returned. \<^verbatim>\<open>get_daily_prices\<close> does neither on the body the API sends with a
  rejected request, \<^verbatim>\<open>{"Error Message": "Invalid API KEY."}\<close>: the subscript
  \<^verbatim>\<open>data['historical']\<close> raises \<^verbatim>\<open>KeyError\<close>, which the handler for
  \<^verbatim>\<open>ValueError\<close> does not catch, and nothing is printed. On a body whose
  \<^verbatim>\<open>historical\<close> entry is a string the \<^verbatim>\<open>ValueError\<close> is caught and the body printed,
  but the next statements read \<^verbatim>\<open>df['date']\<close> from the empty frame and raise
  \<^verbatim>\<open>KeyError\<close> all the same.
\<close>

theorem get_daily_prices_error_body_raises:
  "get_daily_prices demo ''AAPL'' (world0 (\<lambda>u. json_reply error_body))
   = (Inl (KeyError ''historical''),
      (world0 (\<lambda>u. json_reply error_body))
        \<lparr>requested := [''https://financialmodelingprep.com/api/v3/historical-price-full/AAPL?apikey=demo'']\<rparr>)
   \<and> get_daily_prices demo ''AAPL''
       (world0 (\<lambda>u. json_reply (PDict [(''historical'', PStr ''n/a'')])))
     = (Inl (KeyError ''date''),
        (world0 (\<lambda>u. json_reply (PDict [(''historical'', PStr ''n/a'')])))
          \<lparr>requested := [''https://financialmodelingprep.com/api/v3/historical-price-full/AAPL?apikey=demo''],
           printed := [Repr (PDict [(''historical'', PStr ''n/a'')])]\<rparr>)"
  by (simp add: get_daily_prices_def requests_get_json_def requests_get_def json_def
      json_reply_def world0_def subscript_def daily_prices_endpoint_def is_ValueError_def
      from_dict_def daily_prices_index_def getitem_def empty_df_def print_def error_body_def
      demo_def)

text \<open>
  In general: the handler of \<^verbatim>\<open>get_daily_prices\<close> leaves \<open>df\<close> the empty frame, on which
  the statements after the \<^verbatim>\<open>try\<close> block raise. So whenever the operation prints the
  response, it raises; on no response does it print the content and return a table.
\<close>

lemma daily_prices_index_empty:
  "daily_prices_index symbol empty_df = Inl (KeyError ''date'')"
  by (simp add: daily_prices_index_def getitem_def empty_df_def)

lemma get_daily_prices_prints_then_raises:
  assumes "printed (snd (get_daily_prices self symbol w)) \<noteq> printed w"
  shows "fst (get_daily_prices self symbol w) = Inl (KeyError ''date'')"
proof -
  let ?u = "daily_prices_endpoint self symbol"
  obtain r w1 where rw: "requests_get_json ?u w = (r, w1)" by (cases "requests_get_json ?u w")
  have p1: "printed w1 = printed w"
    using rw by (auto simp: requests_get_json_def requests_get_def Let_def split: reply.splits)
  show ?thesis
  proof (cases r)
    case (Inl e)
    then show ?thesis using assms rw p1 by (simp add: get_daily_prices_def)
  next
    case (Inr data)
    then show ?thesis using assms rw p1
      by (auto simp: get_daily_prices_def daily_prices_index_empty split: sum.splits if_splits)
  qed
qed

text \<open>
  The sibling operations do catch the \<^verbatim>\<open>ValueError\<close> of the same body and print it.
  \<^verbatim>\<open>get_sentiment\<close> then returns the empty frame; \<^verbatim>\<open>get_instruments\<close> returns the
  class \<^verbatim>\<open>pd.DataFrame\<close> that \<open>df\<close> was initialised with.
\<close>

lemma get_sentiment_error_body:
  "get_sentiment demo ''AAPL'' 10 (world0 (\<lambda>u. json_reply error_body))
   = (Inr (Frame empty_df),
      (world0 (\<lambda>u. json_reply error_body))
        \<lparr>requested := [''https://financialmodelingprep.com/api/v4/historical/social-sentiment?symbol=AAPL&limit=10&apikey=demo''],
         printed := [Repr error_body]\<rparr>)"
  by (simp add: get_sentiment_def sentiment_endpoint_def requests_get_json_def requests_get_def
      json_def json_reply_def world0_def is_ValueError_def from_dict_def print_def
      error_body_def demo_def str_int_10)

lemma get_instruments_error_body:
  "get_instruments demo ''stock'' (world0 (\<lambda>u. json_reply error_body))
   = (Inr FrameClass,
      (world0 (\<lambda>u. json_reply error_body))
        \<lparr>requested := [''https://financialmodelingprep.com/api/v3/stock/list?apikey=demo''],
         printed := [Repr error_body]\<rparr>)"
  by (simp add: get_instruments_def asset_type_dict_def requests_get_json_def requests_get_def
      json_def json_reply_def world0_def plain_frame_def is_ValueError_def from_dict_def
      print_def error_body_def demo_def)


section \<open>The constructor\<close>

lemma init_network_failure:
  assumes "transport w (test_endpoint \<lparr>apikey = key\<rparr>) = NetworkFailure"
  shows "init key w
         = (Inl ConnectionError,
            w\<lparr>requested := requested w @ [test_endpoint \<lparr>apikey = key\<rparr>]\<rparr>)"
  using assms by (simp add: init_def requests_get_def Let_def)

lemma init_connected:
  assumes "transport w (test_endpoint \<lparr>apikey = key\<rparr>) = Reply r" and "status_code r = 200"
  shows "init key w
         = (Inr \<lparr>apikey = key\<rparr>,
            w\<lparr>requested := requested w @ [test_endpoint \<lparr>apikey = key\<rparr>],
              printed := printed w @ [Text ''Connected'']\<rparr>)"
  using assms by (simp add: init_def requests_get_def Let_def print_def)

lemma init_json_body:
  assumes "transport w (test_endpoint \<lparr>apikey = key\<rparr>) = Reply r" and "status_code r \<noteq> 200"
    and "body r = JsonBody v"
  shows "init key w
         = (Inr \<lparr>apikey = key\<rparr>,
            w\<lparr>requested := requested w @ [test_endpoint \<lparr>apikey = key\<rparr>],
              printed := printed w @ [Repr v]\<rparr>)"
  using assms by (simp add: init_def requests_get_def Let_def print_def json_def)

lemma init_other_body:
  assumes "transport w (test_endpoint \<lparr>apikey = key\<rparr>) = Reply r" and "status_code r \<noteq> 200"
    and "body r = OtherBody s"
  shows "init key w
         = (Inl JSONDecodeError,
            w\<lparr>requested := requested w @ [test_endpoint \<lparr>apikey = key\<rparr>]\<rparr>)"
  using assms by (simp add: init_def requests_get_def Let_def json_def)

text \<open>
  C6, counterexample. The claim is that construction never raises. With an unreachable
  remote service the constructor raises the transport's error, and with a status 503 whose
  body is not JSON it raises the decoding error; no client is produced in either case.
\<close>

theorem init_raises_on_failed_probe:
  "fst (init ''demo'' (world0 (\<lambda>u. NetworkFailure))) = Inl ConnectionError
   \<and> fst (init ''demo''
            (world0 (\<lambda>u. Reply \<lparr>status_code = 503, body = OtherBody ''Service Unavailable''\<rparr>)))
     = Inl JSONDecodeError"
  by (simp add: init_def requests_get_def world0_def json_def)

text \<open>
  C6, as amended. The constructor sends one probe request and catches nothing. It produces
  the client exactly when the probe is answered with status 200 or with a JSON body; the
  client then holds the credential it was given, and the outcome is only printed:
  \<^verbatim>\<open>Connected\<close> on status 200, the decoded body on any other status. A network-level
  failure of the request raises out of the constructor, and so does the decoding of a body
  that is not JSON under a status other than 200; nothing is printed then and no client is
  produced. On every path the world changes by the one request, and by the one printed
  line where there is one.
\<close>

theorem init_probe_outcome:
  "(fst (init key w) = Inr \<lparr>apikey = key\<rparr>
      \<longleftrightarrow> (\<exists>r. transport w (test_endpoint \<lparr>apikey = key\<rparr>) = Reply r
               \<and> (status_code r = 200 \<or> (\<exists>v. body r = JsonBody v))))
   \<and> (\<forall>r. transport w (test_endpoint \<lparr>apikey = key\<rparr>) = Reply r \<and> status_code r = 200 \<longrightarrow>
          init key w
          = (Inr \<lparr>apikey = key\<rparr>,
             w\<lparr>requested := requested w @ [test_endpoint \<lparr>apikey = key\<rparr>],
               printed := printed w @ [Text ''Connected'']\<rparr>))
   \<and> (\<forall>r v. transport w (test_endpoint \<lparr>apikey = key\<rparr>) = Reply r \<and> status_code r \<noteq> 200
            \<and> body r = JsonBody v \<longrightarrow>
          init key w
          = (Inr \<lparr>apikey = key\<rparr>,
             w\<lparr>requested := requested w @ [test_endpoint \<lparr>apikey = key\<rparr>],
               printed := printed w @ [Repr v]\<rparr>))
   \<and> (transport w (test_endpoint \<lparr>apikey = key\<rparr>) = NetworkFailure \<longrightarrow>
          init key w
          = (Inl ConnectionError,
             w\<lparr>requested := requested w @ [test_endpoint \<lparr>apikey = key\<rparr>]\<rparr>))
   \<and> (\<forall>r s. transport w (test_endpoint \<lparr>apikey = key\<rparr>) = Reply r \<and> status_code r \<noteq> 200
            \<and> body r = OtherBody s \<longrightarrow>
          init key w
          = (Inl JSONDecodeError,
             w\<lparr>requested := requested w @ [test_endpoint \<lparr>apikey = key\<rparr>]\<rparr>))
   \<and> (\<forall>c. fst (init key w) = Inr c \<longrightarrow> c = \<lparr>apikey = key\<rparr>)
   \<and> (\<forall>e. fst (init key w) = Inl e \<longrightarrow>
          (e = ConnectionError \<and> transport w (test_endpoint \<lparr>apikey = key\<rparr>) = NetworkFailure)
          \<or> (e = JSONDecodeError
              \<and> (\<exists>r s. transport w (test_endpoint \<lparr>apikey = key\<rparr>) = Reply r
                        \<and> status_code r \<noteq> 200 \<and> body r = OtherBody s)))"
proof (cases "transport w (test_endpoint \<lparr>apikey = key\<rparr>)")
  case NetworkFailure
  note i = init_network_failure [OF NetworkFailure]
  show ?thesis
    by (intro conjI; simp add: i NetworkFailure)
next
  case (Reply r)
  show ?thesis
  proof (cases "status_code r = 200")
    case True
    note i = init_connected [OF Reply True]
    show ?thesis
      by (intro conjI; simp add: i Reply True)
  next
    case False
    show ?thesis
    proof (cases "body r")
      case (JsonBody v)
      note i = init_json_body [OF Reply False JsonBody]
      show ?thesis
        by (intro conjI; simp add: i Reply False JsonBody)
    next
      case (OtherBody s)
      note i = init_other_body [OF Reply False OtherBody]
      show ?thesis
        by (intro conjI; simp add: i Reply False OtherBody)
    qed
  qed
qed

text \<open>
  The four outcomes, each in a world of its own: status 200, status 401 with the JSON body
  of a rejected key, an unreachable service, and status 503 with a body that is not JSON.
\<close>

theorem init_probe_outcome_witness:
  "transport (world0 (\<lambda>u. json_reply (PList []))) (test_endpoint \<lparr>apikey = ''demo''\<rparr>)
     = Reply \<lparr>status_code = 200, body = JsonBody (PList [])\<rparr>
   \<and> init ''demo'' (world0 (\<lambda>u. json_reply (PList [])))
     = (Inr \<lparr>apikey = ''demo''\<rparr>,
        (world0 (\<lambda>u. json_reply (PList [])))
          \<lparr>requested := [''https://financialmodelingprep.com/api/v3/profile/AAPL?apikey=demo''],
           printed := [Text ''Connected'']\<rparr>)
   \<and> transport (world0 (\<lambda>u. Reply \<lparr>status_code = 401, body = JsonBody error_body\<rparr>))
       (test_endpoint \<lparr>apikey = ''demo''\<rparr>)
     = Reply \<lparr>status_code = 401, body = JsonBody error_body\<rparr>
   \<and> init ''demo'' (world0 (\<lambda>u. Reply \<lparr>status_code = 401, body = JsonBody error_body\<rparr>))
     = (Inr \<lparr>apikey = ''demo''\<rparr>,
        (world0 (\<lambda>u. Reply \<lparr>status_code = 401, body = JsonBody error_body\<rparr>))
          \<lparr>requested := [''https://financialmodelingprep.com/api/v3/profile/AAPL?apikey=demo''],
           printed := [Repr error_body]\<rparr>)
   \<and> transport (world0 (\<lambda>u. NetworkFailure)) (test_endpoint \<lparr>apikey = ''demo''\<rparr>)
     = NetworkFailure
   \<and> init ''demo'' (world0 (\<lambda>u. NetworkFailure))
     = (Inl ConnectionError,
        (world0 (\<lambda>u. NetworkFailure))
          \<lparr>requested := [''https://financialmodelingprep.com/api/v3/profile/AAPL?apikey=demo'']\<rparr>)
   \<and> transport (world0 (\<lambda>u. Reply \<lparr>status_code = 503, body = OtherBody ''Service Unavailable''\<rparr>))
       (test_endpoint \<lparr>apikey = ''demo''\<rparr>)
     = Reply \<lparr>status_code = 503, body = OtherBody ''Service Unavailable''\<rparr>
   \<and> init ''demo''
       (world0 (\<lambda>u. Reply \<lparr>status_code = 503, body = OtherBody ''Service Unavailable''\<rparr>))
     = (Inl JSONDecodeError,
        (world0 (\<lambda>u. Reply \<lparr>status_code = 503, body = OtherBody ''Service Unavailable''\<rparr>))
          \<lparr>requested := [''https://financialmodelingprep.com/api/v3/profile/AAPL?apikey=demo'']\<rparr>)"
proof -
  let ?w1 = "world0 (\<lambda>u. json_reply (PList []))"
  let ?w2 = "world0 (\<lambda>u. Reply \<lparr>status_code = 401, body = JsonBody error_body\<rparr>)"
  let ?w3 = "world0 (\<lambda>u. NetworkFailure)"
  let ?w4 = "world0 (\<lambda>u. Reply \<lparr>status_code = 503, body = OtherBody ''Service Unavailable''\<rparr>)"
  have u: "test_endpoint \<lparr>apikey = ''demo''\<rparr>
           = ''https://financialmodelingprep.com/api/v3/profile/AAPL?apikey=demo''"
    by (simp add: test_endpoint_def)
  have t1: "transport ?w1 (test_endpoint \<lparr>apikey = ''demo''\<rparr>)
            = Reply \<lparr>status_code = 200, body = JsonBody (PList [])\<rparr>"
    by (simp add: world0_def json_reply_def)
  have t2: "transport ?w2 (test_endpoint \<lparr>apikey = ''demo''\<rparr>)
            = Reply \<lparr>status_code = 401, body = JsonBody error_body\<rparr>"
    by (simp add: world0_def)
  have t3: "transport ?w3 (test_endpoint \<lparr>apikey = ''demo''\<rparr>) = NetworkFailure"
    by (simp add: world0_def)
  have t4: "transport ?w4 (test_endpoint \<lparr>apikey = ''demo''\<rparr>)
            = Reply \<lparr>status_code = 503, body = OtherBody ''Service Unavailable''\<rparr>"
    by (simp add: world0_def)
  have "init ''demo'' ?w1
        = (Inr \<lparr>apikey = ''demo''\<rparr>,
           ?w1\<lparr>requested := requested ?w1 @ [test_endpoint \<lparr>apikey = ''demo''\<rparr>],
               printed := printed ?w1 @ [Text ''Connected'']\<rparr>)"
    using init_probe_outcome [of "''demo''" ?w1, THEN conjunct2, THEN conjunct1] t1
    by simp
  then have a1: "init ''demo'' ?w1
        = (Inr \<lparr>apikey = ''demo''\<rparr>,
           ?w1\<lparr>requested := [''https://financialmodelingprep.com/api/v3/profile/AAPL?apikey=demo''],
               printed := [Text ''Connected'']\<rparr>)"
    by (simp add: u world0_def)
  have "init ''demo'' ?w2
        = (Inr \<lparr>apikey = ''demo''\<rparr>,
           ?w2\<lparr>requested := requested ?w2 @ [test_endpoint \<lparr>apikey = ''demo''\<rparr>],
               printed := printed ?w2 @ [Repr error_body]\<rparr>)"
    using init_probe_outcome [of "''demo''" ?w2, THEN conjunct2, THEN conjunct2, THEN conjunct1]
      t2
    by simp
  then have a2: "init ''demo'' ?w2
        = (Inr \<lparr>apikey = ''demo''\<rparr>,
           ?w2\<lparr>requested := [''https://financialmodelingprep.com/api/v3/profile/AAPL?apikey=demo''],
               printed := [Repr error_body]\<rparr>)"
    by (simp add: u world0_def)
  have "init ''demo'' ?w3
        = (Inl ConnectionError,
           ?w3\<lparr>requested := requested ?w3 @ [test_endpoint \<lparr>apikey = ''demo''\<rparr>]\<rparr>)"
    using init_probe_outcome [of "''demo''" ?w3, THEN conjunct2, THEN conjunct2, THEN conjunct2,
        THEN conjunct1] t3
    by simp
  then have a3: "init ''demo'' ?w3
        = (Inl ConnectionError,
           ?w3\<lparr>requested := [''https://financialmodelingprep.com/api/v3/profile/AAPL?apikey=demo'']\<rparr>)"
    by (simp add: u world0_def)
  have "init ''demo'' ?w4
        = (Inl JSONDecodeError,
           ?w4\<lparr>requested := requested ?w4 @ [test_endpoint \<lparr>apikey = ''demo''\<rparr>]\<rparr>)"
    using init_probe_outcome [of "''demo''" ?w4, THEN conjunct2, THEN conjunct2, THEN conjunct2,
        THEN conjunct2, THEN conjunct1] t4
    by simp
  then have a4: "init ''demo'' ?w4
        = (Inl JSONDecodeError,
           ?w4\<lparr>requested := [''https://financialmodelingprep.com/api/v3/profile/AAPL?apikey=demo'']\<rparr>)"
    by (simp add: u world0_def)
  show ?thesis
    by (intro conjI) (rule t1, rule a1, rule t2, rule a2, rule t3, rule a3, rule t4, rule a4)
qed


section \<open>Range selection of the chart renderer\<close>

subsection \<open>A positional slice of a sorted list is a filter\<close>






subsection \<open>Label slicing selects the inclusive date range\<close>








subsection \<open>What the figure displays\<close>








subsection \<open>A price series is rendered\<close>








lemma in_window_cases:
  "in_window (Some a) None d \<longleftrightarrow> a \<le> d"
  "in_window None (Some b) d \<longleftrightarrow> d \<le> b"
  "in_window (Some a) (Some b) d \<longleftrightarrow> a \<le> d \<and> d \<le> b"
  "in_window None None d"
  by (simp_all add: in_window_def)










section \<open>The input frame of the chart renderer\<close>

lemma plot_window_frames:
  "r < next_ref w \<Longrightarrow> frames (snd (plot_window df start end' w)) r = frames w r"
  by (auto simp: plot_window_def Let_def new_frame_def split: list.splits sum.splits)

lemma plot_window_next_ref:
  "next_ref w \<le> next_ref (snd (plot_window df start end' w))"
  by (auto simp: plot_window_def Let_def new_frame_def split: list.splits sum.splits)

lemma render_frames:
  "frames (snd (render p ct s e w)) = frames w"
  by (simp add: render_def split: sum.splits)

text \<open>
  C10. \<^verbatim>\<open>draw_chart\<close> never modifies its input table: whatever the reference \<open>df\<close>, the
  bounds and the chart kind, and whether the call returns or raises, every object that
  existed before the call (the input among them) holds the same frame after it: the same
  columns, index, rows and \<^verbatim>\<open>attrs\<close>. A slice is a new object; everything else is read.
\<close>

theorem draw_chart_preserves_frames:
  "\<forall>r<next_ref w. frames (snd (draw_chart self df start end' chart_type w)) r = frames w r"
proof (intro allI impI)
  fix r assume r: "r < next_ref w"
  show "frames (snd (draw_chart self df start end' chart_type w)) r = frames w r"
  proof (cases "chart_type \<in> set [''candle'', ''line'', ''ohlc'']")
    case False
    then show ?thesis by (simp add: draw_chart_def)
  next
    case True
    obtain res w1 where pw: "plot_window df start end' w = (res, w1)"
      by (cases "plot_window df start end' w")
    have f1: "frames w1 r = frames w r" using plot_window_frames [OF r, of df start end'] pw by simp
    show ?thesis
    proof (cases res)
      case (Inl e)
      then show ?thesis using True pw f1 by (simp add: draw_chart_def)
    next
      case (Inr t)
      obtain p s e where t: "t = (p, s, e)" by (cases t)
      show ?thesis using True pw Inr t f1 render_frames [of p chart_type s e w1]
        by (simp add: draw_chart_def)
    qed
  qed
qed

theorem draw_chart_preserves_frames_witness:
  "0 < next_ref january_world
   \<and> frames january_world 0 = january_series
   \<and> frames (snd (draw_chart demo 0 (Some ''2023-01-02'') None ''candle'' january_world)) 0
     = january_series
   \<and> next_ref (snd (draw_chart demo 0 (Some ''2023-01-02'') None ''candle'' january_world)) = 2"
proof -
  have n: "0 < next_ref january_world" and f: "frames january_world 0 = january_series"
    by (simp_all add: january_world_def world0_def)
  have "next_ref (snd (draw_chart demo 0 (Some ''2023-01-02'') None ''candle'' january_world)) = 2"
    by (simp add: draw_chart_def plot_window_def january_world_def world0_def
        january_series_def loc_slice_def slice_bound_def parse_date_examples to_timestamp_def
        Let_def
        new_frame_def render_def build_figure_def getitem_def cell_at_def price_traces_def)
  then show ?thesis
    using n f draw_chart_preserves_frames [of january_world demo 0 "Some ''2023-01-02''" None
        "''candle''"]
    by simp
qed


section \<open>The credential on every request\<close>

lemma carries_q: "carries_apikey self (base @ ''?apikey='' @ apikey self)"
  unfolding carries_apikey_def by (rule disjI1) (rule suffixI, simp)

lemma carries_a: "carries_apikey self (base @ ''&apikey='' @ apikey self)"
  unfolding carries_apikey_def by (rule disjI2) (rule suffixI, simp)

lemma carries_q2: "carries_apikey self (b1 @ b2 @ ''?apikey='' @ apikey self)"
  using carries_q [of self "b1 @ b2"] by simp

lemma carries_a4: "carries_apikey self (b1 @ b2 @ b3 @ b4 @ ''&apikey='' @ apikey self)"
  using carries_a [of self "b1 @ b2 @ b3 @ b4"] by simp

lemma carries_a6: "carries_apikey self (b1 @ b2 @ b3 @ b4 @ b5 @ b6 @ ''&apikey='' @ apikey self)"
  using carries_a [of self "b1 @ b2 @ b3 @ b4 @ b5 @ b6"] by simp

lemma carries_a2: "carries_apikey self (b1 @ b2 @ ''&apikey='' @ apikey self)"
  using carries_a [of self "b1 @ b2"] by simp

lemma carries_lit:
  assumes "suffix ''?apikey='' lit"
  shows "carries_apikey self (lit @ apikey self)"
proof -
  from assms obtain zs where "lit = zs @ ''?apikey=''" by (auto simp: suffix_def)
  then have "lit @ apikey self = zs @ ''?apikey='' @ apikey self" by simp
  then show ?thesis using carries_q [of self zs] by simp
qed

lemma company_info_dict_apikey:
  "\<forall>u\<in>set (map snd (company_info_dict self symbol limit)). carries_apikey self u"
  unfolding company_info_dict_def
  by (simp only: list.map list.set snd_conv ball_simps carries_q2 carries_a4 simp_thms)

lemma report_type_dict_apikey:
  "\<forall>u\<in>set (concat (map snd (report_type_dict self symbol period limit))). carries_apikey self u"
  unfolding report_type_dict_def
  by (simp only: list.map list.set snd_conv ball_simps concat.simps set_append ball_Un carries_a6 simp_thms)

lemma asset_type_dict_apikey:
  "\<forall>u\<in>set (map snd (asset_type_dict self)). carries_apikey self u"
  unfolding asset_type_dict_def
  by (simp only: list.map list.set snd_conv ball_simps simp_thms)
    (intro conjI carries_lit; simp add: suffix_Cons)

lemma market_type_dict_apikey:
  "\<forall>u\<in>set (concat (map snd (market_type_dict self symbol limit))). carries_apikey self u"
  unfolding market_type_dict_def
  by (simp only: list.map list.set snd_conv ball_simps concat.simps set_append ball_Un carries_a2 carries_a4 simp_thms)

lemma sentiment_endpoint_apikey: "carries_apikey self (sentiment_endpoint self symbol limit)"
  unfolding sentiment_endpoint_def by (rule carries_a4)

lemma daily_prices_endpoint_apikey: "carries_apikey self (daily_prices_endpoint self symbol)"
  unfolding daily_prices_endpoint_def by (rule carries_q2)

lemma test_endpoint_apikey: "carries_apikey self (test_endpoint self)"
  unfolding test_endpoint_def by (rule carries_lit) (simp add: suffix_Cons)
lemma issued_same [simp]: "issued w (w\<lparr>printed := p\<rparr>) = []"
  by (simp add: issued_def)

lemma issued_append: "requested w' = requested w @ us \<Longrightarrow> issued w w' = us"
  by (simp add: issued_def)

lemma py_nth_mem: "py_nth xs i = Inr x \<Longrightarrow> x \<in> set xs"
  by (auto simp: py_nth_def split: if_splits)

lemma financial_endpoint_mem:
  assumes "financial_endpoint self symbol report_type period limit as_reported = Inr u"
  shows "u \<in> set (concat (map snd (report_type_dict self symbol period limit)))"
proof -
  from assms obtain templates where
    m: "map_of (report_type_dict self symbol period limit) report_type = Some templates"
    and u: "u \<in> set templates"
    by (auto simp: financial_endpoint_def split: option.splits sum.splits if_splits
        dest: py_nth_mem)
  from map_of_SomeD [OF m] have "templates \<in> set (map snd (report_type_dict self symbol period limit))"
    by force
  with u show ?thesis by auto
qed

lemma news_endpoint_mem:
  assumes "news_endpoint self market_type symbol limit = Inr u"
  shows "u \<in> set (concat (map snd (market_type_dict self symbol limit)))"
proof -
  from assms obtain templates where
    m: "map_of (market_type_dict self symbol limit) market_type = Some templates"
    and u: "u \<in> set templates"
    by (auto simp: news_endpoint_def split: option.splits sum.splits if_splits
        dest: py_nth_mem)
  from map_of_SomeD [OF m] have "templates \<in> set (map snd (market_type_dict self symbol limit))"
    by force
  with u show ?thesis by auto
qed

lemma get_company_info_issued:
  "set (issued w (snd (get_company_info self symbol limit info_type w)))
   \<subseteq> set (map snd (company_info_dict self symbol limit))"
proof (cases "map_of (company_info_dict self symbol limit) info_type")
  case None
  then show ?thesis
    by (simp add: get_company_info_def is_KeyError_def issued_def)
next
  case (Some u)
  from map_of_SomeD [OF Some] have mem: "u \<in> set (map snd (company_info_dict self symbol limit))"
    by force
  obtain r w1 where rw: "requests_get_json u w = (r, w1)" by (cases "requests_get_json u w")
  then have "requested w1 = requested w @ [u]" using requests_get_json_requested [of u w] by simp
  then have "requested (snd (get_company_info self symbol limit info_type w)) = requested w @ [u]"
    using Some rw by (cases r) (simp_all add: get_company_info_def)
  from issued_append [OF this] mem show ?thesis by simp
qed

lemma get_financial_data_issued:
  "set (issued w (snd (get_financial_data self symbol report_type period limit as_reported w)))
   \<subseteq> set (concat (map snd (report_type_dict self symbol period limit)))"
proof (cases "period \<in> set [''annual'', ''quarter'']")
  case False
  then show ?thesis by (simp add: get_financial_data_def issued_def)
next
  case True
  show ?thesis
  proof (cases "financial_endpoint self symbol report_type period limit as_reported")
    case (Inl e)
    then show ?thesis using True
      by (simp add: get_financial_data_def issued_def)
  next
    case (Inr u)
    obtain r w1 where rw: "requests_get_json u w = (r, w1)" by (cases "requests_get_json u w")
    then have "requested w1 = requested w @ [u]" using requests_get_json_requested [of u w] by simp
    then have "requested (snd (get_financial_data self symbol report_type period limit as_reported w))
               = requested w @ [u]"
      using Inr rw True by (cases r) (simp_all add: get_financial_data_def)
    from issued_append [OF this] financial_endpoint_mem [OF Inr] show ?thesis by simp
  qed
qed

lemma get_instruments_issued:
  "set (issued w (snd (get_instruments self asset_type w))) \<subseteq> set (map snd (asset_type_dict self))"
proof (cases "map_of (asset_type_dict self) asset_type")
  case None
  then show ?thesis by (simp add: get_instruments_def is_KeyError_def issued_def)
next
  case (Some u)
  from map_of_SomeD [OF Some] have mem: "u \<in> set (map snd (asset_type_dict self))" by force
  obtain r w1 where rw: "requests_get_json u w = (r, w1)" by (cases "requests_get_json u w")
  then have "requested w1 = requested w @ [u]" using requests_get_json_requested [of u w] by simp
  then have "requested (snd (get_instruments self asset_type w)) = requested w @ [u]"
    using Some rw by (cases r) (simp_all add: get_instruments_def)
  from issued_append [OF this] mem show ?thesis by simp
qed

lemma get_market_news_issued:
  "set (issued w (snd (get_market_news self market_type symbol limit w)))
   \<subseteq> set (concat (map snd (market_type_dict self symbol limit)))"
proof (cases "news_endpoint self market_type symbol limit")
  case (Inl e)
  then show ?thesis by (simp add: get_market_news_def issued_def)
next
  case (Inr u)
  obtain r w1 where rw: "requests_get_json u w = (r, w1)" by (cases "requests_get_json u w")
  then have "requested w1 = requested w @ [u]" using requests_get_json_requested [of u w] by simp
  then have "requested (snd (get_market_news self market_type symbol limit w)) = requested w @ [u]"
    using Inr rw by (cases r) (simp_all add: get_market_news_def)
  from issued_append [OF this] news_endpoint_mem [OF Inr] show ?thesis by simp
qed

lemma get_sentiment_issued:
  "issued w (snd (get_sentiment self symbol limit w)) = [sentiment_endpoint self symbol limit]"
proof -
  obtain r w1 where rw: "requests_get_json (sentiment_endpoint self symbol limit) w = (r, w1)"
    by (cases "requests_get_json (sentiment_endpoint self symbol limit) w")
  then have "requested w1 = requested w @ [sentiment_endpoint self symbol limit]"
    using requests_get_json_requested [of "sentiment_endpoint self symbol limit" w] by simp
  then have "requested (snd (get_sentiment self symbol limit w))
             = requested w @ [sentiment_endpoint self symbol limit]"
    using rw by (cases r) (simp_all add: get_sentiment_def split: sum.splits)
  from issued_append [OF this] show ?thesis .
qed

lemma get_daily_prices_issued:
  "issued w (snd (get_daily_prices self symbol w)) = [daily_prices_endpoint self symbol]"
proof -
  obtain r w1 where rw: "requests_get_json (daily_prices_endpoint self symbol) w = (r, w1)"
    by (cases "requests_get_json (daily_prices_endpoint self symbol) w")
  then have "requested w1 = requested w @ [daily_prices_endpoint self symbol]"
    using requests_get_json_requested [of "daily_prices_endpoint self symbol" w] by simp
  then have "requested (snd (get_daily_prices self symbol w))
             = requested w @ [daily_prices_endpoint self symbol]"
    using rw by (cases r) (simp_all add: get_daily_prices_def split: sum.splits)
  from issued_append [OF this] show ?thesis .
qed

lemma init_issued:
  "issued w (snd (init key w)) = [test_endpoint \<lparr>apikey = key\<rparr>]"
  by (simp add: init_def requests_get_def Let_def issued_def print_def
      split: reply.splits sum.splits)

lemma init_client: "fst (init key w) = Inr c \<Longrightarrow> apikey c = key"
  by (auto simp: init_def requests_get_def Let_def split: reply.splits sum.splits if_splits)

text \<open>
  C8. The client holds the credential it was constructed with, and no operation changes the
  client (the operations take it as an argument and return none). Every URL that the
  constructor or a fetch operation requests, and every URL template the operations build,
  ends with the query parameter \<^verbatim>\<open>apikey\<close> set to that credential.
\<close>

theorem every_request_carries_apikey:
  "(\<forall>c. fst (init key w) = Inr c \<longrightarrow> apikey c = key)
   \<and> (\<forall>u\<in>set (issued w (snd (init key w))). carries_apikey \<lparr>apikey = key\<rparr> u)
   \<and> (\<forall>u\<in>set (issued w (snd (get_company_info self symbol limit info_type w))).
         carries_apikey self u)
   \<and> (\<forall>u\<in>set (issued w (snd (get_financial_data self symbol report_type period limit
                                  as_reported w))).
         carries_apikey self u)
   \<and> (\<forall>u\<in>set (issued w (snd (get_instruments self asset_type w))). carries_apikey self u)
   \<and> (\<forall>u\<in>set (issued w (snd (get_daily_prices self symbol w))). carries_apikey self u)
   \<and> (\<forall>u\<in>set (issued w (snd (get_market_news self market_type news_symbol limit w))).
         carries_apikey self u)
   \<and> (\<forall>u\<in>set (issued w (snd (get_sentiment self symbol limit w))). carries_apikey self u)
   \<and> (\<forall>u\<in>set (map snd (company_info_dict self symbol limit)). carries_apikey self u)
   \<and> (\<forall>u\<in>set (concat (map snd (report_type_dict self symbol period limit))).
         carries_apikey self u)
   \<and> (\<forall>u\<in>set (map snd (asset_type_dict self)). carries_apikey self u)
   \<and> (\<forall>u\<in>set (concat (map snd (market_type_dict self news_symbol limit))).
         carries_apikey self u)"
proof (intro conjI)
  show "\<forall>c. fst (init key w) = Inr c \<longrightarrow> apikey c = key" using init_client by blast
  show "\<forall>u\<in>set (issued w (snd (init key w))). carries_apikey \<lparr>apikey = key\<rparr> u"
    using test_endpoint_apikey [of "\<lparr>apikey = key\<rparr>"] by (simp add: init_issued)
  show "\<forall>u\<in>set (issued w (snd (get_company_info self symbol limit info_type w))).
         carries_apikey self u"
    using get_company_info_issued company_info_dict_apikey by blast
  show "\<forall>u\<in>set (issued w (snd (get_financial_data self symbol report_type period limit
                                  as_reported w))).
         carries_apikey self u"
    using get_financial_data_issued report_type_dict_apikey by blast
  show "\<forall>u\<in>set (issued w (snd (get_instruments self asset_type w))). carries_apikey self u"
    using get_instruments_issued asset_type_dict_apikey by blast
  show "\<forall>u\<in>set (issued w (snd (get_daily_prices self symbol w))). carries_apikey self u"
    using daily_prices_endpoint_apikey by (simp add: get_daily_prices_issued)
  show "\<forall>u\<in>set (issued w (snd (get_market_news self market_type news_symbol limit w))).
         carries_apikey self u"
    using get_market_news_issued market_type_dict_apikey by blast
  show "\<forall>u\<in>set (issued w (snd (get_sentiment self symbol limit w))). carries_apikey self u"
    using sentiment_endpoint_apikey by (simp add: get_sentiment_issued)
  show "\<forall>u\<in>set (map snd (company_info_dict self symbol limit)). carries_apikey self u"
    by (rule company_info_dict_apikey)
  show "\<forall>u\<in>set (concat (map snd (report_type_dict self symbol period limit))).
         carries_apikey self u"
    by (rule report_type_dict_apikey)
  show "\<forall>u\<in>set (map snd (asset_type_dict self)). carries_apikey self u"
    by (rule asset_type_dict_apikey)
  show "\<forall>u\<in>set (concat (map snd (market_type_dict self news_symbol limit))).
         carries_apikey self u"
    by (rule market_type_dict_apikey)
qed

theorem every_request_carries_apikey_witness:
  "fst (init ''demo'' (world0 (\<lambda>u. json_reply (PList [])))) = Inr \<lparr>apikey = ''demo''\<rparr>
   \<and> apikey \<lparr>apikey = ''demo''\<rparr> = ''demo''
   \<and> ''https://financialmodelingprep.com/api/v3/profile/AAPL?apikey=demo''
       \<in> set (issued (world0 (\<lambda>u. json_reply (PList [])))
                 (snd (init ''demo'' (world0 (\<lambda>u. json_reply (PList []))))))
   \<and> carries_apikey \<lparr>apikey = ''demo''\<rparr>
       ''https://financialmodelingprep.com/api/v3/profile/AAPL?apikey=demo''
   \<and> ''https://financialmodelingprep.com/api/v3/historical-price-full/AAPL?apikey=demo''
       \<in> set (issued (world0 (\<lambda>u. json_reply (PList [])))
                 (snd (get_daily_prices demo ''AAPL'' (world0 (\<lambda>u. json_reply (PList []))))))
   \<and> carries_apikey demo
       ''https://financialmodelingprep.com/api/v3/historical-price-full/AAPL?apikey=demo''
   \<and> ''https://financialmodelingprep.com/api/v3/rating/AAPL?apikey=demo''
       \<in> set (map snd (company_info_dict demo ''AAPL'' 10))
   \<and> carries_apikey demo ''https://financialmodelingprep.com/api/v3/rating/AAPL?apikey=demo''"
proof -
  let ?w = "world0 (\<lambda>u. json_reply (PList []))"
  note main = every_request_carries_apikey [of "''demo''" ?w demo "''AAPL''" 10
      "''company_rating''" "''balance_statement''" "''annual''" False "''stock''" "''stock''" None]
  have i: "fst (init ''demo'' ?w) = Inr \<lparr>apikey = ''demo''\<rparr>"
    by (simp add: init_def requests_get_def world0_def json_reply_def print_def Let_def)
  have a: "''https://financialmodelingprep.com/api/v3/profile/AAPL?apikey=demo''
           \<in> set (issued ?w (snd (init ''demo'' ?w)))"
    by (simp add: init_issued test_endpoint_def)
  have b: "''https://financialmodelingprep.com/api/v3/historical-price-full/AAPL?apikey=demo''
           \<in> set (issued ?w (snd (get_daily_prices demo ''AAPL'' ?w)))"
    by (simp add: get_daily_prices_issued daily_prices_endpoint_def demo_def)
  have c: "''https://financialmodelingprep.com/api/v3/rating/AAPL?apikey=demo''
           \<in> set (map snd (company_info_dict demo ''AAPL'' 10))"
    by (simp add: company_info_dict_def demo_def)
  show ?thesis using main i a b c by auto
qed


section \<open>Determinism of the fetch operations\<close>

text \<open>
  The result of a fetch operation depends on the world through the remote service only. No
  operation changes the remote service, so a second call meets the service the first call
  met.
\<close>

lemma company_info_frame_result:
  "fst (company_info_frame info_type d w1) = fst (company_info_frame info_type d w2)"
  by (simp add: company_info_frame_def split: sum.splits)

lemma financial_frame_result:
  "fst (financial_frame d w1) = fst (financial_frame d w2)"
  by (simp add: financial_frame_def split: sum.splits)

lemma plain_frame_result:
  "fst (plain_frame d w1) = fst (plain_frame d w2)"
  by (simp add: plain_frame_def split: sum.splits)

lemma requests_get_json_same:
  "transport w1 = transport w2 \<Longrightarrow> fst (requests_get_json u w1) = fst (requests_get_json u w2)"
  by (simp add: requests_get_json_result)

lemma get_company_info_same:
  assumes "transport w1 = transport w2"
  shows "fst (get_company_info self symbol limit info_type w1)
         = fst (get_company_info self symbol limit info_type w2)"
proof (cases "map_of (company_info_dict self symbol limit) info_type")
  case None
  then show ?thesis
    using company_info_frame_result by (simp add: get_company_info_def is_KeyError_def)
next
  case (Some u)
  obtain r1 v1 where a: "requests_get_json u w1 = (r1, v1)" by (cases "requests_get_json u w1")
  obtain r2 v2 where b: "requests_get_json u w2 = (r2, v2)" by (cases "requests_get_json u w2")
  have "r1 = r2" using requests_get_json_same [OF assms, of u] a b by simp
  then show ?thesis using Some a b company_info_frame_result
    by (cases r2) (simp_all add: get_company_info_def)
qed

lemma get_financial_data_same:
  assumes "transport w1 = transport w2"
  shows "fst (get_financial_data self symbol report_type period limit as_reported w1)
         = fst (get_financial_data self symbol report_type period limit as_reported w2)"
proof (cases "period \<in> set [''annual'', ''quarter'']")
  case False
  then show ?thesis by (simp add: get_financial_data_def)
next
  case True
  show ?thesis
  proof (cases "financial_endpoint self symbol report_type period limit as_reported")
    case (Inl e)
    then show ?thesis using True financial_frame_result by (simp add: get_financial_data_def)
  next
    case (Inr u)
    obtain r1 v1 where a: "requests_get_json u w1 = (r1, v1)" by (cases "requests_get_json u w1")
    obtain r2 v2 where b: "requests_get_json u w2 = (r2, v2)" by (cases "requests_get_json u w2")
    have "r1 = r2" using requests_get_json_same [OF assms, of u] a b by simp
    then show ?thesis using Inr True a b financial_frame_result
      by (cases r2) (simp_all add: get_financial_data_def)
  qed
qed

lemma get_instruments_same:
  assumes "transport w1 = transport w2"
  shows "fst (get_instruments self asset_type w1) = fst (get_instruments self asset_type w2)"
proof (cases "map_of (asset_type_dict self) asset_type")
  case None
  then show ?thesis using plain_frame_result by (simp add: get_instruments_def is_KeyError_def)
next
  case (Some u)
  obtain r1 v1 where a: "requests_get_json u w1 = (r1, v1)" by (cases "requests_get_json u w1")
  obtain r2 v2 where b: "requests_get_json u w2 = (r2, v2)" by (cases "requests_get_json u w2")
  have "r1 = r2" using requests_get_json_same [OF assms, of u] a b by simp
  then show ?thesis using Some a b plain_frame_result
    by (cases r2) (simp_all add: get_instruments_def)
qed

lemma get_market_news_same:
  assumes "transport w1 = transport w2"
  shows "fst (get_market_news self market_type symbol limit w1)
         = fst (get_market_news self market_type symbol limit w2)"
proof (cases "news_endpoint self market_type symbol limit")
  case (Inl e)
  then show ?thesis using plain_frame_result by (simp add: get_market_news_def)
next
  case (Inr u)
  obtain r1 v1 where a: "requests_get_json u w1 = (r1, v1)" by (cases "requests_get_json u w1")
  obtain r2 v2 where b: "requests_get_json u w2 = (r2, v2)" by (cases "requests_get_json u w2")
  have "r1 = r2" using requests_get_json_same [OF assms, of u] a b by simp
  then show ?thesis using Inr a b plain_frame_result
    by (cases r2) (simp_all add: get_market_news_def)
qed

lemma get_sentiment_same:
  assumes "transport w1 = transport w2"
  shows "fst (get_sentiment self symbol limit w1) = fst (get_sentiment self symbol limit w2)"
proof -
  let ?u = "sentiment_endpoint self symbol limit"
  obtain r1 v1 where a: "requests_get_json ?u w1 = (r1, v1)" by (cases "requests_get_json ?u w1")
  obtain r2 v2 where b: "requests_get_json ?u w2 = (r2, v2)" by (cases "requests_get_json ?u w2")
  have "r1 = r2" using requests_get_json_same [OF assms, of ?u] a b by simp
  then show ?thesis using a b
    by (cases r2) (simp_all add: get_sentiment_def split: sum.splits)
qed

lemma get_daily_prices_same:
  assumes "transport w1 = transport w2"
  shows "fst (get_daily_prices self symbol w1) = fst (get_daily_prices self symbol w2)"
proof -
  let ?u = "daily_prices_endpoint self symbol"
  obtain r1 v1 where a: "requests_get_json ?u w1 = (r1, v1)" by (cases "requests_get_json ?u w1")
  obtain r2 v2 where b: "requests_get_json ?u w2 = (r2, v2)" by (cases "requests_get_json ?u w2")
  have "r1 = r2" using requests_get_json_same [OF assms, of ?u] a b by simp
  then show ?thesis using a b
    by (cases r2) (simp_all add: get_daily_prices_def split: sum.splits)
qed

lemma get_company_info_transport:
  "transport (snd (get_company_info self symbol limit info_type w)) = transport w"
proof (cases "map_of (company_info_dict self symbol limit) info_type")
  case None
  then show ?thesis by (simp add: get_company_info_def is_KeyError_def)
next
  case (Some u)
  obtain r v where a: "requests_get_json u w = (r, v)" by (cases "requests_get_json u w")
  then have "transport v = transport w" using requests_get_json_transport [of u w] by simp
  then show ?thesis using Some a by (cases r) (simp_all add: get_company_info_def)
qed

lemma get_financial_data_transport:
  "transport (snd (get_financial_data self symbol report_type period limit as_reported w))
   = transport w"
proof (cases "period \<in> set [''annual'', ''quarter'']")
  case False
  then show ?thesis by (simp add: get_financial_data_def)
next
  case True
  show ?thesis
  proof (cases "financial_endpoint self symbol report_type period limit as_reported")
    case (Inl e)
    then show ?thesis using True by (simp add: get_financial_data_def)
  next
    case (Inr u)
    obtain r v where a: "requests_get_json u w = (r, v)" by (cases "requests_get_json u w")
    then have "transport v = transport w" using requests_get_json_transport [of u w] by simp
    then show ?thesis using Inr True a by (cases r) (simp_all add: get_financial_data_def)
  qed
qed

lemma get_instruments_transport:
  "transport (snd (get_instruments self asset_type w)) = transport w"
proof (cases "map_of (asset_type_dict self) asset_type")
  case None
  then show ?thesis by (simp add: get_instruments_def is_KeyError_def)
next
  case (Some u)
  obtain r v where a: "requests_get_json u w = (r, v)" by (cases "requests_get_json u w")
  then have "transport v = transport w" using requests_get_json_transport [of u w] by simp
  then show ?thesis using Some a by (cases r) (simp_all add: get_instruments_def)
qed

lemma get_market_news_transport:
  "transport (snd (get_market_news self market_type symbol limit w)) = transport w"
proof (cases "news_endpoint self market_type symbol limit")
  case (Inl e)
  then show ?thesis by (simp add: get_market_news_def)
next
  case (Inr u)
  obtain r v where a: "requests_get_json u w = (r, v)" by (cases "requests_get_json u w")
  then have "transport v = transport w" using requests_get_json_transport [of u w] by simp
  then show ?thesis using Inr a by (cases r) (simp_all add: get_market_news_def)
qed

lemma get_sentiment_transport:
  "transport (snd (get_sentiment self symbol limit w)) = transport w"
proof -
  let ?u = "sentiment_endpoint self symbol limit"
  obtain r v where a: "requests_get_json ?u w = (r, v)" by (cases "requests_get_json ?u w")
  then have "transport v = transport w" using requests_get_json_transport [of ?u w] by simp
  then show ?thesis using a by (cases r) (simp_all add: get_sentiment_def split: sum.splits)
qed

lemma get_daily_prices_transport:
  "transport (snd (get_daily_prices self symbol w)) = transport w"
proof -
  let ?u = "daily_prices_endpoint self symbol"
  obtain r v where a: "requests_get_json ?u w = (r, v)" by (cases "requests_get_json ?u w")
  then have "transport v = transport w" using requests_get_json_transport [of ?u w] by simp
  then show ?thesis using a by (cases r) (simp_all add: get_daily_prices_def split: sum.splits)
qed

text \<open>
  C9. Every fetch operation is deterministic in its arguments and the remote response: in
  two worlds whose remote service answers alike (whatever else differs: the requests made
  and the lines printed so far, the objects that exist), the same call gives the same
  result, be it a table, another value or an exception.
\<close>

theorem fetch_deterministic:
  assumes "transport w1 = transport w2"
  shows "fst (get_company_info self symbol limit info_type w1)
           = fst (get_company_info self symbol limit info_type w2)
       \<and> fst (get_financial_data self symbol report_type period limit as_reported w1)
           = fst (get_financial_data self symbol report_type period limit as_reported w2)
       \<and> fst (get_instruments self asset_type w1) = fst (get_instruments self asset_type w2)
       \<and> fst (get_daily_prices self symbol w1) = fst (get_daily_prices self symbol w2)
       \<and> fst (get_market_news self market_type news_symbol limit w1)
           = fst (get_market_news self market_type news_symbol limit w2)
       \<and> fst (get_sentiment self symbol limit w1) = fst (get_sentiment self symbol limit w2)"
  using get_company_info_same [OF assms] get_financial_data_same [OF assms]
    get_instruments_same [OF assms] get_daily_prices_same [OF assms]
    get_market_news_same [OF assms] get_sentiment_same [OF assms]
  by simp

text \<open>
  Calling twice: the second call of \<^verbatim>\<open>get_daily_prices("AAPL")\<close> runs in the world the
  first call left, which has one more request on record and the same remote service, and
  returns what the first call returned.
\<close>

theorem fetch_deterministic_witness:
  "transport (world0 (\<lambda>u. json_reply aapl_history))
     = transport (snd (get_daily_prices demo ''AAPL'' (world0 (\<lambda>u. json_reply aapl_history))))
   \<and> requested (world0 (\<lambda>u. json_reply aapl_history)) = []
   \<and> requested (snd (get_daily_prices demo ''AAPL'' (world0 (\<lambda>u. json_reply aapl_history))))
       = [''https://financialmodelingprep.com/api/v3/historical-price-full/AAPL?apikey=demo'']
   \<and> fst (get_daily_prices demo ''AAPL'' (world0 (\<lambda>u. json_reply aapl_history)))
       = fst (get_daily_prices demo ''AAPL''
               (snd (get_daily_prices demo ''AAPL'' (world0 (\<lambda>u. json_reply aapl_history)))))"
proof -
  let ?w1 = "world0 (\<lambda>u. json_reply aapl_history)"
  let ?w2 = "snd (get_daily_prices demo ''AAPL'' ?w1)"
  have t: "transport ?w1 = transport ?w2" by (simp add: get_daily_prices_transport)
  have r1: "requested ?w1 = []" by (simp add: world0_def)
  have "issued ?w1 ?w2 = [daily_prices_endpoint demo ''AAPL'']"
    by (rule get_daily_prices_issued)
  then have r2: "requested ?w2
      = [''https://financialmodelingprep.com/api/v3/historical-price-full/AAPL?apikey=demo'']"
    using r1 by (simp add: issued_def daily_prices_endpoint_def demo_def)
  show ?thesis
    using t r1 r2
      fetch_deterministic [OF t, of demo "''AAPL''" 10 "''company_profile''"
        "''balance_statement''" "''annual''" False "''stock''" "''stock''" None]
    by simp
qed

end
